theory Spec2Isabelle
  imports Complex_Main "HOL-Library.Sublist"
begin

section \<open>The OODA convergence loop of \<open>run_design_and_math\<close> (flows/pipeline.py)\<close>












































section \<open>Strings as Python sees them\<close>

text \<open>
  A \<open>string\<close> stands for a Python \<open>str\<close> whose code points are below 256, one
  \<open>char\<close> per code point. On that range \<open>str.isspace\<close> (and the regular expression
  class \<open>\s\<close>) holds for the twelve code points below, and \<open>str.lower\<close> adds 32 to
  \<open>A..Z\<close> and to the accented capitals \<open>0xC0..0xDE\<close> (the multiplication sign \<open>0xD7\<close>
  apart), which is setting the bit of value 32.
\<close>

definition isspace :: "char \<Rightarrow> bool" where
  "isspace c = (of_char c \<in> {9, 10, 11, 12, 13, 28, 29, 30, 31, 32, 133, 160 :: nat})"

fun lower_char :: "char \<Rightarrow> char" where
  "lower_char (Char b0 b1 b2 b3 b4 b5 b6 b7) =
     (let n = of_char (Char b0 b1 b2 b3 b4 b5 b6 b7) :: nat
      in if (65 \<le> n \<and> n \<le> 90) \<or> (192 \<le> n \<and> n \<le> 222 \<and> n \<noteq> 215)
         then Char b0 b1 b2 b3 b4 True b6 b7 else Char b0 b1 b2 b3 b4 b5 b6 b7)"

definition lower :: "string \<Rightarrow> string" where
  "lower s = map lower_char s"

definition strip :: "string \<Rightarrow> string" where
  "strip s = rev (dropWhile isspace (rev (dropWhile isspace s)))"

text \<open>\<open>sorted(a_set_of_strings)\<close>: the distinct elements in code point order.\<close>

fun str_less :: "string \<Rightarrow> string \<Rightarrow> bool" where
  "str_less [] [] = False"
| "str_less [] (y # ys) = True"
| "str_less (x # xs) [] = False"
| "str_less (x # xs) (y # ys) =
     (if (of_char x :: nat) < of_char y then True
      else if (of_char y :: nat) < of_char x then False
      else str_less xs ys)"

fun insert_sorted :: "string \<Rightarrow> string list \<Rightarrow> string list" where
  "insert_sorted s [] = [s]"
| "insert_sorted s (t # ts) =
     (if s = t then t # ts
      else if str_less s t then s # t # ts
      else t # insert_sorted s ts)"

definition sorted_set :: "string list \<Rightarrow> string list" where
  "sorted_set xs = foldr insert_sorted xs []"

section \<open>The jurisdiction profile store (tools/jurisdiction_profiles.py)\<close>

text \<open>
  Of each profile the record keeps the entries the compliance checker reads: the RTP
  range, the max-win cap (\<open>None\<close> is the source's \<open>"cap_x": None\<close>), the banned and
  restricted features, the responsible-gambling features with their \<open>required\<close> flag,
  the minimum game cycle time (\<open>None\<close> where the profile has no such entry) and the
  submission documents. Percentages are exact rationals.
\<close>

record profile =
  rtp_min :: rat
  rtp_max :: rat
  cap_x :: "nat option"
  banned :: "string list"
  restricted :: "string list"
  responsible_gambling :: "(string \<times> bool) list"
  min_game_cycle_time_ms :: "nat option"
  submission_documents :: "string list"

definition UK_profile :: profile where
  "UK_profile =
     \<lparr>rtp_min = 70, rtp_max = 999 / 10,
      cap_x = None,
      banned = [''bonus_buy''],
      restricted = [''autoplay_speed_over_2.5s''],
      responsible_gambling =
        [(''reality_check'', True), (''session_timer'', True), (''net_position'', True), (''loss_limits'', True), (''deposit_limits'', True), (''self_exclusion'', True), (''panic_button'', True), (''rg_messaging'', True)],
      min_game_cycle_time_ms = Some 2500,
      submission_documents =
        [''Game rules document (player-facing)'', ''PAR sheet (RTP breakdown, hit frequency, volatility)'', ''Complete paytable with all pay combinations'', ''Reel strip data (all reel sets)'', ''Feature description with trigger rates and expected value'', ''RNG certificate'', ''Responsible gambling implementation details'']\<rparr>"

definition Malta_profile :: profile where
  "Malta_profile =
     \<lparr>rtp_min = 85, rtp_max = 999 / 10,
      cap_x = None,
      banned = [],
      restricted = [],
      responsible_gambling =
        [(''reality_check'', True), (''session_timer'', True), (''net_position'', False), (''loss_limits'', True), (''deposit_limits'', True), (''self_exclusion'', True), (''panic_button'', False), (''rg_messaging'', True)],
      min_game_cycle_time_ms = Some 1000,
      submission_documents =
        [''Game rules'', ''PAR sheet'', ''Paytable'', ''Reel strips'', ''RNG certificate'', ''Feature documentation'']\<rparr>"

definition Ontario_profile :: profile where
  "Ontario_profile =
     \<lparr>rtp_min = 85, rtp_max = 999 / 10,
      cap_x = None,
      banned = [],
      restricted = [''bonus_buy''],
      responsible_gambling =
        [(''reality_check'', True), (''session_timer'', True), (''net_position'', True), (''loss_limits'', True), (''deposit_limits'', True), (''self_exclusion'', True), (''panic_button'', True), (''rg_messaging'', True), (''play_break_reminders'', True)],
      min_game_cycle_time_ms = Some 2000,
      submission_documents =
        [''Game rules'', ''PAR sheet'', ''Paytable'', ''Reel strips'', ''RNG certificate'', ''RG implementation details'', ''Feature documentation'']\<rparr>"

definition Sweden_profile :: profile where
  "Sweden_profile =
     \<lparr>rtp_min = 80, rtp_max = 999 / 10,
      cap_x = None,
      banned = [''bonus_buy'', ''autoplay''],
      restricted = [''turbo_spin''],
      responsible_gambling =
        [(''reality_check'', True), (''session_timer'', True), (''net_position'', True), (''loss_limits'', True), (''deposit_limits'', True), (''self_exclusion'', True), (''panic_button'', True), (''rg_messaging'', True)],
      min_game_cycle_time_ms = Some 3000,
      submission_documents =
        [''Game rules'', ''PAR sheet'', ''Paytable'', ''Reel strips'', ''RNG certificate'', ''RG implementation'', ''Autoplay removal proof'']\<rparr>"

definition New_Jersey_profile :: profile where
  "New_Jersey_profile =
     \<lparr>rtp_min = 83, rtp_max = 999 / 10,
      cap_x = None,
      banned = [],
      restricted = [],
      responsible_gambling =
        [(''reality_check'', False), (''session_timer'', True), (''loss_limits'', True), (''deposit_limits'', True), (''self_exclusion'', True), (''rg_messaging'', True)],
      min_game_cycle_time_ms = Some 1500,
      submission_documents =
        [''Game rules'', ''PAR sheet'', ''Paytable'', ''Reel strips'', ''RNG certificate'', ''Geolocation implementation details'']\<rparr>"

definition Spain_profile :: profile where
  "Spain_profile =
     \<lparr>rtp_min = 85, rtp_max = 999 / 10,
      cap_x = None,
      banned = [''bonus_buy''],
      restricted = [''autoplay''],
      responsible_gambling =
        [(''reality_check'', True), (''session_timer'', True), (''loss_limits'', True), (''deposit_limits'', True), (''self_exclusion'', True), (''rg_messaging'', True)],
      min_game_cycle_time_ms = None,
      submission_documents =
        [''Game rules (Spanish translation required)'', ''PAR sheet'', ''Paytable'', ''Reel strips'', ''RNG certificate'', ''RG implementation'']\<rparr>"

definition Curacao_profile :: profile where
  "Curacao_profile =
     \<lparr>rtp_min = 75, rtp_max = 999 / 10,
      cap_x = None,
      banned = [],
      restricted = [],
      responsible_gambling =
        [(''reality_check'', False), (''session_timer'', False), (''loss_limits'', False), (''deposit_limits'', True), (''self_exclusion'', True), (''rg_messaging'', True)],
      min_game_cycle_time_ms = Some 500,
      submission_documents =
        [''Game rules'', ''RNG certificate'', ''Basic paytable'']\<rparr>"

definition Georgia_profile :: profile where
  "Georgia_profile =
     \<lparr>rtp_min = 75, rtp_max = 999 / 10,
      cap_x = None,
      banned = [],
      restricted = [],
      responsible_gambling =
        [(''rg_messaging'', True), (''self_exclusion'', True)],
      min_game_cycle_time_ms = None,
      submission_documents =
        [''Game rules'', ''PAR sheet'', ''Paytable'', ''RNG certificate'']\<rparr>"

definition Texas_profile :: profile where
  "Texas_profile =
     \<lparr>rtp_min = 75, rtp_max = 999 / 10,
      cap_x = None,
      banned = [],
      restricted = [],
      responsible_gambling =
        [(''rg_messaging'', True), (''self_exclusion'', True)],
      min_game_cycle_time_ms = None,
      submission_documents =
        [''Game rules'', ''PAR sheet'', ''Paytable'', ''RNG certificate'']\<rparr>"

definition JURISDICTION_PROFILES :: "(string \<times> profile) list" where
  "JURISDICTION_PROFILES =
     [(''UK'', UK_profile),
      (''Malta'', Malta_profile),
      (''Ontario'', Ontario_profile),
      (''Sweden'', Sweden_profile),
      (''New Jersey'', New_Jersey_profile),
      (''Spain'', Spain_profile),
      (''Curacao'', Curacao_profile),
      (''Georgia'', Georgia_profile),
      (''Texas'', Texas_profile)]"

section \<open>The jurisdiction compliance checker (\<open>JurisdictionComplianceCheckerTool._run\<close>)\<close>

text \<open>
  Lines 430-441: an exact key first, then the first key of the store, in its order,
  whose lower-cased form is the lower-cased, stripped market name. The name found
  replaces the one given.
\<close>

definition find_profile :: "string \<Rightarrow> (string \<times> profile) option" where
  "find_profile market_name =
     (case map_of JURISDICTION_PROFILES market_name of
        Some p \<Rightarrow> Some (market_name, p)
      | None \<Rightarrow> find (\<lambda>(k, v). lower k = strip (lower market_name)) JURISDICTION_PROFILES)"

datatype status = PASS | FAIL | WARN | INFO

record check_entry =
  category :: string
  status :: status

datatype compliance_blocker =
    RtpOutsideRange string rat rat rat
  | MaxWinExceedsCap string int nat
  | BannedFeaturesUsed string "string list"

datatype compliance_warning = RestrictedFeatures string "string list"

datatype json = JNum rat | JInt int | JBool bool | JStrings "string list"

datatype compliance_verdict = BLOCKED | CONDITIONAL_PASS | CLEAR

text \<open>The running state of the loop over the markets: the result lists and the accumulators.\<close>

record checker_state =
  markets_checked :: "string list"
  unknown_markets :: "string list"
  blockers :: "compliance_blocker list"
  warnings :: "compliance_warning list"
  per_market :: "(string \<times> check_entry list) list"
  all_required_rg :: "string list"
  all_banned :: "string list"
  all_submission_docs :: "string list"
  tightest_min_rtp :: rat
  slowest_cycle_ms :: nat

definition checker_init :: checker_state where
  "checker_init =
     \<lparr>markets_checked = [], unknown_markets = [], blockers = [], warnings = [],
      per_market = [], all_required_rg = [], all_banned = [], all_submission_docs = [],
      tightest_min_rtp = 0, slowest_cycle_ms = 0\<rparr>"

text \<open>\<open>d[k] = v\<close> on a dictionary kept in insertion order.\<close>

fun dict_set :: "string \<Rightarrow> 'v \<Rightarrow> (string \<times> 'v) list \<Rightarrow> (string \<times> 'v) list" where
  "dict_set k v [] = [(k, v)]"
| "dict_set k v ((k', v') # d) = (if k = k' then (k, v) # d else (k', v') # dict_set k v d)"

text \<open>The body of \<open>for market_name in markets\<close> for a market that resolved to \<open>(name, p)\<close>.\<close>

definition check_profile ::
  "rat \<Rightarrow> int \<Rightarrow> string list \<Rightarrow> string \<Rightarrow> profile \<Rightarrow> checker_state \<Rightarrow> checker_state" where
  "check_profile proposed_rtp proposed_max_win proposed_features name p st =
     (let rtp_ok = (rtp_min p \<le> proposed_rtp \<and> proposed_rtp \<le> rtp_max p);
          cap_hit = (case cap_x p of None \<Rightarrow> None
                     | Some cap \<Rightarrow> if cap \<noteq> 0 \<and> proposed_max_win > int cap
                                  then Some cap else None);
          banned_hits = filter (\<lambda>f. f \<in> set (banned p)) proposed_features;
          restricted_hits = filter (\<lambda>f. f \<in> set (restricted p)) proposed_features;
          missing_rg = map fst (filter snd (responsible_gambling p));
          cycle_ms = (case min_game_cycle_time_ms p of None \<Rightarrow> 0 | Some c \<Rightarrow> c);
          checks =
            [\<lparr>category = ''RTP'', status = (if rtp_ok then PASS else FAIL)\<rparr>,
             \<lparr>category = ''Max Win'', status = (if cap_hit \<noteq> None then FAIL else PASS)\<rparr>,
             \<lparr>category = ''Banned Features'', status = (if banned_hits \<noteq> [] then FAIL else PASS)\<rparr>] @
            (if restricted_hits \<noteq> []
             then [\<lparr>category = ''Restricted Features'', status = WARN\<rparr>] else []) @
            [\<lparr>category = ''Responsible Gambling'', status = INFO\<rparr>,
             \<lparr>category = ''Technical'', status = INFO\<rparr>]
      in st\<lparr>markets_checked := markets_checked st @ [name],
            blockers := blockers st @
              (if rtp_ok then [] else [RtpOutsideRange name proposed_rtp (rtp_min p) (rtp_max p)]) @
              (case cap_hit of None \<Rightarrow> [] | Some cap \<Rightarrow> [MaxWinExceedsCap name proposed_max_win cap]) @
              (if banned_hits \<noteq> [] then [BannedFeaturesUsed name banned_hits] else []),
            warnings := warnings st @
              (if restricted_hits \<noteq> [] then [RestrictedFeatures name restricted_hits] else []),
            per_market := dict_set name checks (per_market st),
            all_required_rg := all_required_rg st @ missing_rg,
            all_banned := all_banned st @ banned_hits,
            all_submission_docs := all_submission_docs st @ submission_documents p,
            tightest_min_rtp := max (tightest_min_rtp st) (rtp_min p),
            slowest_cycle_ms := max (slowest_cycle_ms st) cycle_ms\<rparr>)"

definition check_market ::
  "rat \<Rightarrow> int \<Rightarrow> string list \<Rightarrow> checker_state \<Rightarrow> string \<Rightarrow> checker_state" where
  "check_market proposed_rtp proposed_max_win proposed_features st market_name =
     (case find_profile market_name of
        None \<Rightarrow> st\<lparr>unknown_markets := unknown_markets st @ [market_name]\<rparr>
      | Some (name, p) \<Rightarrow> check_profile proposed_rtp proposed_max_win proposed_features name p st)"

record compliance_results =
  r_markets_checked :: "string list"
  r_unknown_markets :: "string list"
  r_blockers :: "compliance_blocker list"
  r_warnings :: "compliance_warning list"
  r_per_market :: "(string \<times> check_entry list) list"
  r_intersection :: "(string \<times> json) list"
  r_submission_checklist :: "string list"
  r_verdict :: compliance_verdict

text \<open>Lines 535-555: the intersection, the checklist and the verdict from the final state.\<close>

definition build_results :: "rat \<Rightarrow> checker_state \<Rightarrow> compliance_results" where
  "build_results proposed_rtp st =
     \<lparr>r_markets_checked = markets_checked st,
      r_unknown_markets = unknown_markets st,
      r_blockers = blockers st,
      r_warnings = warnings st,
      r_per_market = per_market st,
      r_intersection =
        [(''tightest_min_rtp'', JNum (tightest_min_rtp st)),
         (''rtp_compliant'', JBool (proposed_rtp \<ge> tightest_min_rtp st)),
         (''features_banned_in_any_market'', JStrings (sorted_set (all_banned st))),
         (''all_required_rg_features'', JStrings (sorted_set (all_required_rg st))),
         (''slowest_min_cycle_ms'', JInt (int (slowest_cycle_ms st)))],
      r_submission_checklist = sorted_set (all_submission_docs st),
      r_verdict = (if blockers st \<noteq> [] then BLOCKED
                   else if warnings st \<noteq> [] then CONDITIONAL_PASS else CLEAR)\<rparr>"

definition check_jurisdiction_compliance ::
  "string list \<Rightarrow> rat \<Rightarrow> int \<Rightarrow> string list \<Rightarrow> compliance_results" where
  "check_jurisdiction_compliance markets proposed_rtp proposed_max_win proposed_features =
     build_results proposed_rtp
       (foldl (check_market proposed_rtp proposed_max_win proposed_features) checker_init markets)"

text \<open>The profiles a list of market names resolves to, in the order of the names.\<close>

definition resolved_profiles :: "string list \<Rightarrow> profile list" where
  "resolved_profiles markets = map snd (List.map_filter find_profile markets)"

section \<open>The convergence validator (\<open>ConvergenceValidatorTool._run\<close>, tools/convergence_tools.py)\<close>

text \<open>
  The validator reads four files of the output directory. Their states are the inputs
  of the model:
  \<^item> \<open>02_design/gdd.md\<close>: absent, or its text;
  \<^item> \<open>03_math/paytable.csv\<close>: absent, or the symbol keys of the rows that
    \<open>csv.DictReader\<close> delivered, in order, and whether reading ended in an exception;
  \<^item> \<open>03_math/simulation_results.json\<close>: absent, not parseable, or a JSON object;
  \<^item> \<open>03_math/BaseReels.csv\<close>: absent, unreadable, or its text.
  The simulation object is well-typed: \<open>measured_rtp\<close> and \<open>max_win_achieved\<close> are
  numbers, \<open>null\<close> or missing, and \<open>rtp_breakdown\<close> is an object, \<open>null\<close> or missing.
  Numbers are exact rationals, so the rounding of Python's floats is not modelled.
  The formatted \<open>detail\<close> texts are represented by the values they are formatted
  from; the \<open>fix\<close> texts and the \<open>data_summary\<close> are left out, since nothing is
  decided on them.
\<close>

datatype 'a entry = Missing | Null | Val 'a

text \<open>\<open>d.get(k)\<close>: \<open>None\<close> for a missing key and for \<open>null\<close>.\<close>

fun get :: "'a entry \<Rightarrow> 'a option" where
  "get Missing = None"
| "get Null = None"
| "get (Val v) = Some v"

text \<open>
  A value of the breakdown object. \<open>isinstance(v, (int, float))\<close> holds for numbers and,
  \<open>bool\<close> being a subclass of \<open>int\<close>, for \<open>true\<close> and \<open>false\<close>.
\<close>

datatype bvalue = BNum rat | BBool bool | BOther

record simulation =
  measured_rtp :: "rat entry"
  max_win_achieved :: "rat entry"
  total_spins :: "nat entry"
  rtp_breakdown :: "(string \<times> bvalue) list entry"
  other_keys :: "string list"

datatype sim_file = SimAbsent | SimUnparseable | SimJson simulation

datatype paytable_file = PaytableAbsent | PaytableRows "string list" bool

datatype reels_file = ReelsAbsent | ReelsUnreadable | ReelsText string

record output_dir =
  gdd_md :: "string option"
  paytable_csv :: paytable_file
  simulation_results_json :: sim_file
  BaseReels_csv :: reels_file

datatype py_error = ZeroDivisionError | AttributeError

datatype detail =
    GddNotFound
  | PaytableNotFound
  | SimulationNotFound
  | ReelsNotFound
  | RtpDeviates rat rat rat
  | MaxWinExceedsTarget rat int
  | MaxWinOverCap rat string nat
  | BreakdownGap rat rat

record conflict =
  c_type :: string
  severity :: string
  c_detail :: detail
  instruction_to :: "string option"

datatype warning_detail =
    PaytableParseError
  | SimulationParseError
  | RtpOffTarget rat rat
  | FeatureUncosted string
  | FewSymbols nat

record warning =
  w_type :: string
  w_detail :: warning_detail

datatype passed =
    GddExists
  | PaytableSymbols nat
  | SimulationSpins "nat option"
  | RtpWithin rat rat rat
  | MaxWinWithinCap rat string nat
  | BreakdownSums rat rat
  | ReelPositions int

record report =
  verdict :: string
  conflicts :: "conflict list"
  v_warnings :: "warning list"
  checks_passed :: "passed list"

definition MAX_WIN_CAPS :: "(string \<times> nat option) list" where
  "MAX_WIN_CAPS =
     [(''uk'', Some 10000), (''ontario'', Some 10000), (''sweden'', Some 10000),
      (''malta'', Some 50000), (''curacao'', None),
      (''new jersey'', Some 50000), (''michigan'', Some 50000),
      (''pennsylvania'', Some 50000), (''west virginia'', Some 50000),
      (''georgia'', None), (''texas'', None)]"

text \<open>\<open>MAX_WIN_CAPS.get(market.lower().strip())\<close>: \<open>None\<close> for an unknown key and for a \<open>None\<close> cap.\<close>

definition cap_of :: "string \<Rightarrow> nat option" where
  "cap_of market = (case map_of MAX_WIN_CAPS (strip (lower market)) of
                      None \<Rightarrow> None | Some c \<Rightarrow> c)"

text \<open>Substring test (\<open>a in b\<close>), \<open>str.replace(" ", "_")\<close> and \<open>str.split("\n")\<close>.\<close>

fun contains :: "string \<Rightarrow> string \<Rightarrow> bool" where
  "contains sub [] = (sub = [])"
| "contains sub (c # cs) = (prefix sub (c # cs) \<or> contains sub cs)"

definition spaces_to_underscores :: "string \<Rightarrow> string" where
  "spaces_to_underscores s = map (\<lambda>c. if c = CHR '' '' then CHR ''_'' else c) s"

fun split_lines :: "string \<Rightarrow> string list" where
  "split_lines [] = [[]]"
| "split_lines (c # cs) =
     (if c = CHR 0x0A then [] # split_lines cs
      else (case split_lines cs of l # ls \<Rightarrow> (c # l) # ls | [] \<Rightarrow> [[c]]))"

text \<open>The three result lists while the checks run.\<close>

record acc =
  a_conflicts :: "conflict list"
  a_warnings :: "warning list"
  a_passed :: "passed list"

definition add_conflict :: "conflict \<Rightarrow> acc \<Rightarrow> acc" where
  "add_conflict c a = a\<lparr>a_conflicts := a_conflicts a @ [c]\<rparr>"

definition add_warning :: "warning \<Rightarrow> acc \<Rightarrow> acc" where
  "add_warning w a = a\<lparr>a_warnings := a_warnings a @ [w]\<rparr>"

definition add_passed :: "passed \<Rightarrow> acc \<Rightarrow> acc" where
  "add_passed p a = a\<lparr>a_passed := a_passed a @ [p]\<rparr>"

text \<open>Step 1, the GDD: the text read (empty when the file is absent).\<close>

definition gdd_text_of :: "output_dir \<Rightarrow> string" where
  "gdd_text_of d = (case gdd_md d of None \<Rightarrow> [] | Some t \<Rightarrow> t)"

definition read_gdd :: "output_dir \<Rightarrow> acc \<Rightarrow> acc" where
  "read_gdd d a =
     (case gdd_md d of
        Some t \<Rightarrow> add_passed GddExists a
      | None \<Rightarrow> add_conflict \<lparr>c_type = ''MISSING_FILE'', severity = ''BLOCKER'',
                              c_detail = GddNotFound, instruction_to = None\<rparr> a)"

text \<open>
  Step 2, the paytable: a dictionary keyed by symbol, so its size is the number of
  distinct keys. Rows read before an exception stay in it.
\<close>

definition paytable_of :: "output_dir \<Rightarrow> string list" where
  "paytable_of d = (case paytable_csv d of PaytableAbsent \<Rightarrow> []
                    | PaytableRows syms failed \<Rightarrow> remdups syms)"

definition read_paytable :: "output_dir \<Rightarrow> acc \<Rightarrow> acc" where
  "read_paytable d a =
     (case paytable_csv d of
        PaytableAbsent \<Rightarrow>
          add_conflict \<lparr>c_type = ''MISSING_FILE'', severity = ''BLOCKER'',
                        c_detail = PaytableNotFound, instruction_to = None\<rparr> a
      | PaytableRows syms failed \<Rightarrow>
          if failed then add_warning \<lparr>w_type = ''PARSE_ERROR'', w_detail = PaytableParseError\<rparr> a
          else add_passed (PaytableSymbols (length (remdups syms))) a)"

text \<open>Step 3, the simulation results: \<open>sim\<close> stays \<open>{}\<close> unless the file exists and parses.\<close>

definition empty_sim :: simulation where
  "empty_sim = \<lparr>measured_rtp = Missing, max_win_achieved = Missing, total_spins = Missing,
                rtp_breakdown = Missing, other_keys = []\<rparr>"

definition sim_of :: "output_dir \<Rightarrow> simulation" where
  "sim_of d = (case simulation_results_json d of SimJson s \<Rightarrow> s | _ \<Rightarrow> empty_sim)"

text \<open>The truth value of the dictionary \<open>sim\<close>: it has some key.\<close>

definition sim_nonempty :: "simulation \<Rightarrow> bool" where
  "sim_nonempty s =
     (measured_rtp s \<noteq> Missing \<or> max_win_achieved s \<noteq> Missing \<or> total_spins s \<noteq> Missing \<or>
      rtp_breakdown s \<noteq> Missing \<or> other_keys s \<noteq> [])"

definition read_simulation :: "output_dir \<Rightarrow> acc \<Rightarrow> acc" where
  "read_simulation d a =
     (case simulation_results_json d of
        SimJson s \<Rightarrow> add_passed (SimulationSpins (get (total_spins s))) a
      | SimUnparseable \<Rightarrow> add_warning \<lparr>w_type = ''PARSE_ERROR'', w_detail = SimulationParseError\<rparr> a
      | SimAbsent \<Rightarrow>
          add_conflict \<lparr>c_type = ''MISSING_FILE'', severity = ''HIGH'',
                        c_detail = SimulationNotFound, instruction_to = None\<rparr> a)"

text \<open>Step 4, the RTP check.\<close>

definition rtp_check :: "simulation \<Rightarrow> rat \<Rightarrow> acc \<Rightarrow> acc" where
  "rtp_check sim target_rtp a =
     (case get (measured_rtp sim) of
        None \<Rightarrow> a
      | Some m \<Rightarrow>
          let deviation = \<bar>m - target_rtp\<bar> in
          if deviation > 1 then
            add_conflict \<lparr>c_type = ''RTP_DEVIATION'', severity = ''BLOCKER'',
                          c_detail = RtpDeviates m deviation target_rtp,
                          instruction_to = Some ''mathematician''\<rparr> a
          else if deviation > 1 / 2 then
            add_warning \<lparr>w_type = ''RTP_DEVIATION'', w_detail = RtpOffTarget m deviation\<rparr> a
          else add_passed (RtpWithin m target_rtp deviation) a)"

text \<open>
  Step 5, the max win check. The detail of \<open>MAX_WIN_EXCEEDED\<close> divides by the target,
  which raises for a target of 0.
\<close>

definition max_win_target_check :: "rat \<Rightarrow> int \<Rightarrow> acc \<Rightarrow> py_error + acc" where
  "max_win_target_check mw max_win_target a =
     (if mw > of_int max_win_target * (6 / 5) then
        (if max_win_target = 0 then Inl ZeroDivisionError
         else Inr (add_conflict \<lparr>c_type = ''MAX_WIN_EXCEEDED'', severity = ''HIGH'',
                                 c_detail = MaxWinExceedsTarget mw max_win_target,
                                 instruction_to = Some ''mathematician''\<rparr> a))
      else Inr a)"

definition market_cap_check :: "rat \<Rightarrow> acc \<Rightarrow> string \<Rightarrow> acc" where
  "market_cap_check mw a market =
     (case cap_of market of
        None \<Rightarrow> a
      | Some cap \<Rightarrow>
          if cap \<noteq> 0 \<and> mw > of_nat cap then
            add_conflict \<lparr>c_type = ''JURISDICTION_MAX_WIN'', severity = ''BLOCKER'',
                          c_detail = MaxWinOverCap mw market cap,
                          instruction_to = Some ''mathematician''\<rparr> a
          else if cap \<noteq> 0 then add_passed (MaxWinWithinCap mw market cap) a
          else a)"

definition max_win_check :: "simulation \<Rightarrow> int \<Rightarrow> string list \<Rightarrow> acc \<Rightarrow> py_error + acc" where
  "max_win_check sim max_win_target target_markets a =
     (case get (max_win_achieved sim) of
        None \<Rightarrow> Inr a
      | Some mw \<Rightarrow>
          (case max_win_target_check mw max_win_target a of
             Inl e \<Rightarrow> Inl e
           | Inr a' \<Rightarrow> Inr (foldl (market_cap_check mw) a' target_markets)))"

text \<open>Step 6, the RTP breakdown: \<open>sim.get("rtp_breakdown", {})\<close> and the sum of its numbers.\<close>

definition breakdown_of :: "simulation \<Rightarrow> (string \<times> bvalue) list option" where
  "breakdown_of sim = (case rtp_breakdown sim of Missing \<Rightarrow> Some [] | Null \<Rightarrow> None | Val b \<Rightarrow> Some b)"

fun number_of :: "bvalue \<Rightarrow> rat option" where
  "number_of (BNum r) = Some r"
| "number_of (BBool b) = Some (if b then 1 else 0)"
| "number_of BOther = None"

definition breakdown_total :: "(string \<times> bvalue) list \<Rightarrow> rat" where
  "breakdown_total b = sum_list (List.map_filter (\<lambda>(k, v). number_of v) b)"

definition breakdown_check :: "simulation \<Rightarrow> acc \<Rightarrow> acc" where
  "breakdown_check sim a =
     (case breakdown_of sim of
        None \<Rightarrow> a
      | Some b \<Rightarrow>
          if b = [] then a
          else
            let total = breakdown_total b in
            (case get (measured_rtp sim) of
               None \<Rightarrow> a
             | Some m \<Rightarrow>
                 if m \<noteq> 0 \<and> \<bar>total - m\<bar> > 1 then
                   add_conflict \<lparr>c_type = ''RTP_BREAKDOWN_MISMATCH'', severity = ''HIGH'',
                                 c_detail = BreakdownGap total m,
                                 instruction_to = Some ''mathematician''\<rparr> a
                 else if m \<noteq> 0 then add_passed (BreakdownSums total m) a
                 else a))"

text \<open>
  Step 7, features of the GDD against the breakdown's components. \<open>rtp_breakdown.keys()\<close>
  is evaluated for a term the GDD mentions, and raises on \<open>None\<close>.
\<close>

definition feature_keywords :: "(string \<times> string) list" where
  "feature_keywords =
     [(''free spins'', ''free_games''), (''cascading'', ''cascading_reels''),
      (''hold and spin'', ''hold_and_spin''), (''bonus buy'', ''bonus_buy''),
      (''expanding wild'', ''expanding_wilds''), (''multiplier'', ''multiplier''),
      (''jackpot'', ''jackpots'')]"

fun feature_loop ::
  "string \<Rightarrow> (string \<times> bvalue) list option \<Rightarrow> (string \<times> string) list \<Rightarrow> acc \<Rightarrow> py_error + acc" where
  "feature_loop gdd_lower b [] a = Inr a"
| "feature_loop gdd_lower b ((gdd_term, math_key) # kws) a =
     (if contains gdd_term gdd_lower then
        (case b of
           None \<Rightarrow> Inl AttributeError
         | Some bd \<Rightarrow>
             let has_math = list_ex (\<lambda>(k, v). contains math_key (lower k) \<or>
                                      contains (spaces_to_underscores gdd_term) (lower k)) bd
             in feature_loop gdd_lower b kws
                  (if \<not> has_math \<and> bd \<noteq> []
                   then add_warning \<lparr>w_type = ''FEATURE_UNCOSTED'', w_detail = FeatureUncosted gdd_term\<rparr> a
                   else a))
      else feature_loop gdd_lower b kws a)"

definition feature_check :: "string \<Rightarrow> simulation \<Rightarrow> acc \<Rightarrow> py_error + acc" where
  "feature_check gdd_text sim a =
     (if gdd_text \<noteq> [] \<and> sim_nonempty sim
      then feature_loop (lower gdd_text) (breakdown_of sim) feature_keywords a
      else Inr a)"

text \<open>Step 8, the number of paytable symbols.\<close>

definition symbol_count_check :: "string list \<Rightarrow> string \<Rightarrow> acc \<Rightarrow> acc" where
  "symbol_count_check paytable gdd_text a =
     (if paytable \<noteq> [] \<and> gdd_text \<noteq> [] \<and> length paytable < 8
      then add_warning \<lparr>w_type = ''LOW_SYMBOL_COUNT'', w_detail = FewSymbols (length paytable)\<rparr> a
      else a)"

text \<open>Step 9, the reel strips: the non-blank lines of the stripped text, less the header.\<close>

definition reel_lines :: "string \<Rightarrow> string list" where
  "reel_lines reel_text = filter (\<lambda>l. strip l \<noteq> []) (split_lines (strip reel_text))"

definition reels_check :: "output_dir \<Rightarrow> string list \<Rightarrow> acc \<Rightarrow> acc" where
  "reels_check d paytable a =
     (case BaseReels_csv d of
        ReelsText t \<Rightarrow> add_passed (ReelPositions (int (length (reel_lines t)) - 1)) a
      | ReelsUnreadable \<Rightarrow> a
      | ReelsAbsent \<Rightarrow>
          if paytable \<noteq> [] then
            add_conflict \<lparr>c_type = ''MISSING_FILE'', severity = ''HIGH'',
                          c_detail = ReelsNotFound, instruction_to = Some ''mathematician''\<rparr> a
          else a)"

text \<open>Step 10, the verdict.\<close>

definition decide :: "acc \<Rightarrow> string" where
  "decide a =
     (let blocker_count = length (filter (\<lambda>c. severity c = ''BLOCKER'') (a_conflicts a));
          high_count = length (filter (\<lambda>c. severity c = ''HIGH'') (a_conflicts a))
      in if blocker_count > 0 then ''NOT_CONVERGED''
         else if high_count > 0 then ''NOT_CONVERGED''
         else if length (a_warnings a) > 3 then ''MARGINAL''
         else ''CONVERGED'')"

definition make_report :: "acc \<Rightarrow> report" where
  "make_report a = \<lparr>verdict = decide a, conflicts = a_conflicts a, v_warnings = a_warnings a,
                    checks_passed = a_passed a\<rparr>"

definition validate_convergence ::
  "output_dir \<Rightarrow> rat \<Rightarrow> int \<Rightarrow> string list \<Rightarrow> py_error + report" where
  "validate_convergence d target_rtp max_win_target target_markets =
     (let a0 = \<lparr>a_conflicts = [], a_warnings = [], a_passed = []\<rparr>;
          gdd_text = gdd_text_of d;
          paytable = paytable_of d;
          sim = sim_of d;
          a3 = read_simulation d (read_paytable d (read_gdd d a0));
          a4 = rtp_check sim target_rtp a3
      in case max_win_check sim max_win_target target_markets a4 of
           Inl e \<Rightarrow> Inl e
         | Inr a5 \<Rightarrow>
             (case feature_check gdd_text sim (breakdown_check sim a5) of
                Inl e \<Rightarrow> Inl e
              | Inr a7 \<Rightarrow>
                  Inr (make_report (reels_check d paytable (symbol_count_check paytable gdd_text a7)))))"


section \<open>Names for the validator's outcomes\<close>

text \<open>
  The conflicts the validator can record, written once, and tests for the kinds of
  passed checks. They are used to state what a report contains.
\<close>

definition missing_gdd :: conflict where
  "missing_gdd = \<lparr>c_type = ''MISSING_FILE'', severity = ''BLOCKER'',
                   c_detail = GddNotFound, instruction_to = None\<rparr>"

definition missing_paytable :: conflict where
  "missing_paytable = \<lparr>c_type = ''MISSING_FILE'', severity = ''BLOCKER'',
                        c_detail = PaytableNotFound, instruction_to = None\<rparr>"

definition missing_simulation :: conflict where
  "missing_simulation = \<lparr>c_type = ''MISSING_FILE'', severity = ''HIGH'',
                          c_detail = SimulationNotFound, instruction_to = None\<rparr>"

definition missing_reels :: conflict where
  "missing_reels = \<lparr>c_type = ''MISSING_FILE'', severity = ''HIGH'',
                     c_detail = ReelsNotFound, instruction_to = Some ''mathematician''\<rparr>"

definition rtp_conflict :: "rat \<Rightarrow> rat \<Rightarrow> conflict" where
  "rtp_conflict m t = \<lparr>c_type = ''RTP_DEVIATION'', severity = ''BLOCKER'',
                        c_detail = RtpDeviates m \<bar>m - t\<bar> t,
                        instruction_to = Some ''mathematician''\<rparr>"

definition rtp_warning :: "rat \<Rightarrow> rat \<Rightarrow> warning" where
  "rtp_warning m t = \<lparr>w_type = ''RTP_DEVIATION'', w_detail = RtpOffTarget m \<bar>m - t\<bar>\<rparr>"

definition target_conflict :: "rat \<Rightarrow> int \<Rightarrow> conflict" where
  "target_conflict mw mt = \<lparr>c_type = ''MAX_WIN_EXCEEDED'', severity = ''HIGH'',
                             c_detail = MaxWinExceedsTarget mw mt,
                             instruction_to = Some ''mathematician''\<rparr>"

definition cap_conflict :: "rat \<Rightarrow> string \<Rightarrow> nat \<Rightarrow> conflict" where
  "cap_conflict mw market cap =
     \<lparr>c_type = ''JURISDICTION_MAX_WIN'', severity = ''BLOCKER'',
      c_detail = MaxWinOverCap mw market cap, instruction_to = Some ''mathematician''\<rparr>"

definition breakdown_conflict :: "rat \<Rightarrow> rat \<Rightarrow> conflict" where
  "breakdown_conflict tot m =
     \<lparr>c_type = ''RTP_BREAKDOWN_MISMATCH'', severity = ''HIGH'',
      c_detail = BreakdownGap tot m, instruction_to = Some ''mathematician''\<rparr>"

text \<open>
  What the validator's own cap table says about one market and a measured max win: a
  blocker when the market's lower-cased, stripped name is a key with a non-null cap that
  the max win exceeds, a passed check when it is a key with a non-null cap that the max
  win does not exceed, nothing for a null cap or an unknown key.
\<close>

definition cap_blocker :: "rat \<Rightarrow> string \<Rightarrow> conflict option" where
  "cap_blocker mw market =
     (case map_of MAX_WIN_CAPS (strip (lower market)) of
        Some (Some cap) \<Rightarrow> if mw > of_nat cap then Some (cap_conflict mw market cap) else None
      | _ \<Rightarrow> None)"

definition cap_pass :: "rat \<Rightarrow> string \<Rightarrow> passed option" where
  "cap_pass mw market =
     (case map_of MAX_WIN_CAPS (strip (lower market)) of
        Some (Some cap) \<Rightarrow> if mw > of_nat cap then None else Some (MaxWinWithinCap mw market cap)
      | _ \<Rightarrow> None)"

text \<open>The sum and the measured RTP the breakdown step compares, when it compares at all.\<close>

definition reconciled :: "simulation \<Rightarrow> (rat \<times> rat) option" where
  "reconciled sim =
     (case (breakdown_of sim, get (measured_rtp sim)) of
        (Some b, Some m) \<Rightarrow> if b \<noteq> [] \<and> m \<noteq> 0 then Some (breakdown_total b, m) else None
      | _ \<Rightarrow> None)"

fun is_cap_pass :: "passed \<Rightarrow> bool" where
  "is_cap_pass (MaxWinWithinCap mw m c) = True"
| "is_cap_pass _ = False"

fun is_breakdown_pass :: "passed \<Rightarrow> bool" where
  "is_breakdown_pass (BreakdownSums tot m) = True"
| "is_breakdown_pass _ = False"

fun is_rtp_pass :: "passed \<Rightarrow> bool" where
  "is_rtp_pass (RtpWithin m t dev) = True"
| "is_rtp_pass _ = False"

text \<open>Output directories used as concrete inputs.\<close>

definition sample_gdd :: string where
  "sample_gdd = ''## 1. Overview\<newline>A five reel game with free spins.\<newline>''"

definition sample_sim :: simulation where
  "sample_sim =
     \<lparr>measured_rtp = Val 96, max_win_achieved = Val 12000, total_spins = Val 1000000,
      rtp_breakdown = Val [(''base_game'', BNum 60), (''free_spins'', BNum 20),
                           (''jackpots'', BNum (1 / 2))],
      other_keys = [''hit_frequency'', ''volatility_index'']\<rparr>"

definition sample_dir :: output_dir where
  "sample_dir =
     \<lparr>gdd_md = Some sample_gdd,
      paytable_csv = PaytableRows [''A'', ''K'', ''Q'', ''J'', ''10'', ''9'', ''WILD'', ''SCATTER''] False,
      simulation_results_json = SimJson sample_sim,
      BaseReels_csv = ReelsText ''Pos,Reel 1\<newline>1,A\<newline>2,K\<newline>''\<rparr>"

definition no_sim_dir :: output_dir where
  "no_sim_dir = sample_dir\<lparr>simulation_results_json := SimAbsent\<rparr>"

definition no_sim_no_reels_dir :: output_dir where
  "no_sim_no_reels_dir = sample_dir\<lparr>simulation_results_json := SimAbsent, BaseReels_csv := ReelsAbsent\<rparr>"

definition consistent_sim :: simulation where
  "consistent_sim =
     \<lparr>measured_rtp = Val 96, max_win_achieved = Val 4000, total_spins = Val 1000000,
      rtp_breakdown = Val [(''base_game'', BNum 70), (''free_spins'', BNum 26)],
      other_keys = []\<rparr>"

definition header_only_paytable_dir :: output_dir where
  "header_only_paytable_dir =
     \<lparr>gdd_md = Some sample_gdd, paytable_csv = PaytableRows [] False,
      simulation_results_json = SimJson consistent_sim, BaseReels_csv = ReelsAbsent\<rparr>"

definition no_rtp_dir :: output_dir where
  "no_rtp_dir = sample_dir\<lparr>simulation_results_json := SimJson (sample_sim\<lparr>measured_rtp := Missing\<rparr>)\<rparr>"

definition zero_rtp_dir :: output_dir where
  "zero_rtp_dir = sample_dir\<lparr>simulation_results_json := SimJson (sample_sim\<lparr>measured_rtp := Val 0\<rparr>)\<rparr>"


section \<open>The targeted patch applier (\<open>GDDPatchTool._run\<close>, tools/convergence_tools.py)\<close>



text \<open>
  The pattern \<open>({header}\s*\n)(.*?)(?=\n## |\Z)\<close> under \<open>re.DOTALL\<close>, with the header
  escaped, so literal.

  After the header the greedy \<open>\s*\<close> takes the whole run of whitespace and gives
  characters back until a newline follows; the rest of the pattern can always match, so
  the first such point wins: group 1 ends with the last newline of the run. With no
  newline in the run there is no match at this position. \<open>header_end\<close> is the number of
  characters \<open>\s*\n\<close> takes.
\<close>

definition newline :: char where
  "newline = CHR 0x0A"

definition header_end :: "string \<Rightarrow> nat option" where
  "header_end rest =
     (let n = length (dropWhile (\<lambda>c. c \<noteq> newline) (rev (takeWhile isspace rest)))
      in if n = 0 then None else Some n)"

















section \<open>The paytable sanity checker (\<open>PaytableSanityCheckerTool._run\<close>, tools/convergence_tools.py)\<close>

text \<open>
  The checker reads \<open>03_math/paytable.csv\<close> through \<open>csv.DictReader\<close> and
  \<open>03_math/BaseReels.csv\<close> through \<open>csv.reader\<close>. The model starts from what these
  readers deliver: for the paytable the field names and, per data row, the dictionary from
  field name to cell (\<open>None\<close> for a cell the row is too short for); for the reels the
  header row and the data rows. Python's \<open>float\<close> is a parameter: the number a cell
  text stands for, if any.
\<close>

type_synonym csv_row = "(string \<times> string option) list"

datatype paytable_input = PtAbsent | PtUnreadable | PtTable "string list" "csv_row list"

datatype reels_input = RlAbsent | RlUnreadable | RlTable "string list" "string list list"

record math_dir =
  paytable_file :: paytable_input
  reels_file :: reels_input

datatype sanity_detail =
    PaytableNotFoundDetail
  | PaytableUnparseable
  | EmptyPaytable
  | NonMonotonic string nat rat rat
  | ZeroPay string
  | NoWild
  | NoScatter
  | ReelSymbolsMissing "string list"
  | PaytableSymbolsUnused "string list"
  | ShortReel string nat
  | ReelsNotFoundDetail
  | ReelsUnparseable

record finding =
  f_type :: string
  f_detail :: sanity_detail

datatype sanity_pass =
    PaytableLoaded nat
  | PaysMonotonic
  | WildPresent
  | ScatterPresent
  | ReelsLoaded nat nat
  | ReelSymbolsInPaytable
  | HighestPay rat

record sanity_report =
  s_verdict :: string
  s_issues :: "finding list"
  s_warnings :: "finding list"
  s_checks_passed :: "sanity_pass list"
  symbol_count :: "nat option"
  reel_symbol_count :: "nat option"

text \<open>Sequencing of steps that may raise, and a loop whose body may raise.\<close>

definition then_do :: "'e + 'a \<Rightarrow> ('a \<Rightarrow> 'e + 'b) \<Rightarrow> 'e + 'b" where
  "then_do m f = (case m of Inl e \<Rightarrow> Inl e | Inr x \<Rightarrow> f x)"

fun for_each :: "('a \<Rightarrow> 'e + 'b) \<Rightarrow> 'a list \<Rightarrow> 'e + 'b list" where
  "for_each f [] = Inr []"
| "for_each f (x # xs) =
     (case f x of
        Inl e \<Rightarrow> Inl e
      | Inr y \<Rightarrow> (case for_each f xs of Inl e \<Rightarrow> Inl e | Inr ys \<Rightarrow> Inr (y # ys)))"

text \<open>
  Lines 757-768: the symbol column is the last field whose lower-cased, stripped name is
  \<open>symbol\<close>, \<open>name\<close> or \<open>sym\<close>, else the first field; the pay column of \<open>n\<close> of a kind
  is the last field whose name mentions it.
\<close>

definition digit :: "nat \<Rightarrow> string" where
  "digit n = [char_of (48 + n)]"

definition mentions :: "nat \<Rightarrow> string \<Rightarrow> bool" where
  "mentions n fl =
     (contains (digit n @ ''oak'') fl \<or> contains (digit n @ ''x'') fl \<or>
      contains (digit n @ '' of'') fl \<or> contains (''x'' @ digit n) fl \<or> fl = digit n)"

definition last_where :: "('a \<Rightarrow> bool) \<Rightarrow> 'a list \<Rightarrow> 'a option" where
  "last_where P xs = (case filter P xs of [] \<Rightarrow> None | y # ys \<Rightarrow> Some (last (y # ys)))"

definition sym_col_of :: "string list \<Rightarrow> string option" where
  "sym_col_of fieldnames =
     (case last_where (\<lambda>fn. strip (lower fn) \<in> {''symbol'', ''name'', ''sym''}) fieldnames of
        Some fn \<Rightarrow> Some fn
      | None \<Rightarrow> (case fieldnames of [] \<Rightarrow> None | f # fs \<Rightarrow> Some f))"

definition pay_cols_of :: "string list \<Rightarrow> (nat \<times> string) list" where
  "pay_cols_of fieldnames =
     List.map_filter
       (\<lambda>n. map_option (\<lambda>fn. (n, fn)) (last_where (\<lambda>fn. mentions n (strip (lower fn))) fieldnames))
       [3, 4, 5, 6]"

text \<open>
  \<open>row.get(sym_col, default).strip()\<close>: a cell that is \<open>None\<close> has no \<open>strip\<close>.
  \<open>float(row.get(col, 0))\<close> with the \<open>except\<close> that turns a failure into 0.
\<close>

definition sym_name_of :: "string option \<Rightarrow> string \<Rightarrow> csv_row \<Rightarrow> py_error + string" where
  "sym_name_of sym_col dflt row =
     (case sym_col of
        None \<Rightarrow> Inr (strip dflt)
      | Some k \<Rightarrow>
          (case map_of row k of
             None \<Rightarrow> Inr (strip dflt)
           | Some None \<Rightarrow> Inl AttributeError
           | Some (Some v) \<Rightarrow> Inr (strip v)))"

definition pay_value :: "(string \<Rightarrow> rat option) \<Rightarrow> csv_row \<Rightarrow> string \<Rightarrow> rat" where
  "pay_value float row col =
     (case map_of row col of
        Some (Some v) \<Rightarrow> (case float v of Some r \<Rightarrow> r | None \<Rightarrow> 0)
      | _ \<Rightarrow> 0)"

definition special :: "string \<Rightarrow> bool" where
  "special sym_name = (lower sym_name \<in> {''wild'', ''scatter'', ''bonus''})"

text \<open>Step 2, one row: the pays in the order of the tiers, each against the last positive one.\<close>

fun monotonic_tiers :: "string \<Rightarrow> (nat \<times> rat) list \<Rightarrow> rat \<Rightarrow> finding list" where
  "monotonic_tiers sym_name [] prev_val = []"
| "monotonic_tiers sym_name ((n, val) # tiers) prev_val =
     (if val > 0 \<and> val < prev_val
      then [\<lparr>f_type = ''NON_MONOTONIC'', f_detail = NonMonotonic sym_name n val prev_val\<rparr>]
      else []) @
     monotonic_tiers sym_name tiers (if val > 0 then val else prev_val)"

definition monotonic_row ::
  "(string \<Rightarrow> rat option) \<Rightarrow> string option \<Rightarrow> (nat \<times> string) list \<Rightarrow> csv_row \<Rightarrow>
   py_error + finding list" where
  "monotonic_row float sym_col pay_cols row =
     then_do (sym_name_of sym_col ''???'' row) (\<lambda>sym_name.
       Inr (if sym_name = [] \<or> special sym_name then []
            else monotonic_tiers sym_name
                   (map (\<lambda>(n, col). (n, pay_value float row col)) pay_cols) (- 1)))"

text \<open>Step 3, one row: a symbol that pays nothing in any tier.\<close>

definition zero_pay_row ::
  "(string \<Rightarrow> rat option) \<Rightarrow> string option \<Rightarrow> (nat \<times> string) list \<Rightarrow> csv_row \<Rightarrow>
   py_error + finding list" where
  "zero_pay_row float sym_col pay_cols row =
     then_do (sym_name_of sym_col ''???'' row) (\<lambda>sym_name.
       Inr (if list_all (\<lambda>(n, col). \<not> pay_value float row col > 0) pay_cols \<and>
               \<not> special sym_name \<and> sym_name \<noteq> []
            then [\<lparr>f_type = ''ZERO_PAY'', f_detail = ZeroPay sym_name\<rparr>] else []))"

text \<open>Step 5, on the reel table.\<close>

definition reel_symbols_of :: "string list list \<Rightarrow> string list" where
  "reel_symbols_of reel_rows =
     remdups (filter (\<lambda>cell. cell \<noteq> [] \<and> lower cell \<notin> {[], ''position'', ''pos'', ''stop''})
                (map strip (concat reel_rows)))"

definition reel_col_values :: "string list list \<Rightarrow> nat \<Rightarrow> string list" where
  "reel_col_values reel_rows col_idx =
     map (\<lambda>row. strip (row ! col_idx))
       (filter (\<lambda>row. col_idx < length row \<and> strip (row ! col_idx) \<noteq> []) reel_rows)"

definition short_reels :: "string list \<Rightarrow> string list list \<Rightarrow> finding list" where
  "short_reels reel_header reel_rows =
     concat (map (\<lambda>(col_idx, reel_name).
                    if length (reel_col_values reel_rows col_idx) < 10
                    then [\<lparr>f_type = ''SHORT_REEL'',
                           f_detail = ShortReel reel_name (length (reel_col_values reel_rows col_idx))\<rparr>]
                    else [])
                 (enumerate 0 reel_header))"

definition truly_missing :: "string list \<Rightarrow> string list \<Rightarrow> string list" where
  "truly_missing here there =
     (let only_here = filter (\<lambda>s. s \<notin> set there) here;
          there_lower = map lower there
      in sorted_set (filter (\<lambda>s. lower s \<notin> set there_lower) only_here))"

text \<open>The three lists while the checks run.\<close>

record sanity_acc =
  issues :: "finding list"
  sa_warnings :: "finding list"
  sa_passed :: "sanity_pass list"

definition reels_step :: "reels_input \<Rightarrow> string list \<Rightarrow> sanity_acc \<Rightarrow> sanity_acc" where
  "reels_step reels paytable_symbols a =
     (case reels of
        RlAbsent \<Rightarrow>
          a\<lparr>issues := issues a @ [\<lparr>f_type = ''MISSING_REELS'', f_detail = ReelsNotFoundDetail\<rparr>]\<rparr>
      | RlUnreadable \<Rightarrow>
          a\<lparr>sa_warnings := sa_warnings a @ [\<lparr>f_type = ''REEL_PARSE_ERROR'', f_detail = ReelsUnparseable\<rparr>]\<rparr>
      | RlTable reel_header reel_rows \<Rightarrow>
          let reel_symbols = reel_symbols_of reel_rows;
              missing_from_paytable = truly_missing reel_symbols paytable_symbols;
              not_on_reels = truly_missing paytable_symbols reel_symbols;
              new_issues =
                (if missing_from_paytable \<noteq> []
                 then [\<lparr>f_type = ''REEL_SYMBOL_MISSING_FROM_PAYTABLE'',
                        f_detail = ReelSymbolsMissing missing_from_paytable\<rparr>] else []) @
                short_reels reel_header reel_rows;
              all_issues = issues a @ new_issues
          in a\<lparr>issues := all_issues,
               sa_warnings := sa_warnings a @
                 (if not_on_reels \<noteq> []
                  then [\<lparr>f_type = ''PAYTABLE_SYMBOL_NOT_ON_REELS'',
                         f_detail = PaytableSymbolsUnused not_on_reels\<rparr>] else []),
               sa_passed := sa_passed a @ [ReelsLoaded (length reel_rows) (length reel_header)] @
                 (if list_ex (\<lambda>i. f_type i = ''REEL_SYMBOL_MISSING_FROM_PAYTABLE'') all_issues
                  then [] else [ReelSymbolsInPaytable])\<rparr>)"

definition reel_symbol_count_of :: "reels_input \<Rightarrow> nat" where
  "reel_symbol_count_of reels =
     (case reels of RlTable reel_header reel_rows \<Rightarrow> length (reel_symbols_of reel_rows) | _ \<Rightarrow> 0)"

text \<open>The verdict, lines 921-933.\<close>

definition blocker_types :: "string set" where
  "blocker_types = {''REEL_SYMBOL_MISSING_FROM_PAYTABLE'', ''EMPTY_PAYTABLE'', ''SHORT_REEL'',
                    ''MISSING_REELS''}"

definition sanity_verdict :: "finding list \<Rightarrow> finding list \<Rightarrow> string" where
  "sanity_verdict iss warns =
     (let blocker_count = length (filter (\<lambda>i. f_type i \<in> blocker_types) iss)
      in if blocker_count > 0 then ''FAIL''
         else if iss \<noteq> [] then ''NEEDS_FIXES''
         else if length warns > 3 then ''MARGINAL''
         else ''PASS'')"

definition early_fail :: "finding \<Rightarrow> sanity_report" where
  "early_fail i = \<lparr>s_verdict = ''FAIL'', s_issues = [i], s_warnings = [], s_checks_passed = [],
                   symbol_count = None, reel_symbol_count = None\<rparr>"

definition check_paytable_sanity ::
  "(string \<Rightarrow> rat option) \<Rightarrow> math_dir \<Rightarrow> py_error + sanity_report" where
  "check_paytable_sanity float d =
     (case paytable_file d of
        PtAbsent \<Rightarrow> Inr (early_fail \<lparr>f_type = ''MISSING_FILE'', f_detail = PaytableNotFoundDetail\<rparr>)
      | PtUnreadable \<Rightarrow> Inr (early_fail \<lparr>f_type = ''PARSE_ERROR'', f_detail = PaytableUnparseable\<rparr>)
      | PtTable fieldnames paytable_data \<Rightarrow>
          let sym_col = sym_col_of fieldnames;
              pay_cols = pay_cols_of fieldnames;
              a1 = (if paytable_data = []
                    then \<lparr>issues = [\<lparr>f_type = ''EMPTY_PAYTABLE'', f_detail = EmptyPaytable\<rparr>],
                          sa_warnings = [], sa_passed = []\<rparr>
                    else \<lparr>issues = [], sa_warnings = [],
                          sa_passed = [PaytableLoaded (length paytable_data)]\<rparr>)
          in then_do (for_each (monotonic_row float sym_col pay_cols) paytable_data) (\<lambda>non_monotonic.
             let a2 = a1\<lparr>issues := issues a1 @ concat non_monotonic,
                         sa_passed := sa_passed a1 @
                           (if concat non_monotonic = [] then [PaysMonotonic] else [])\<rparr>
             in then_do (for_each (zero_pay_row float sym_col pay_cols) paytable_data) (\<lambda>zero_pays.
             then_do (for_each (sym_name_of sym_col []) paytable_data) (\<lambda>stripped.
             let sym_names = map lower stripped;
                 has_wild = list_ex (contains ''wild'') sym_names;
                 has_scatter = list_ex (\<lambda>s. contains ''scatter'' s \<or> contains ''bonus'' s) sym_names;
                 a4 = a2\<lparr>sa_warnings := sa_warnings a2 @ concat zero_pays @
                           (if has_wild then [] else [\<lparr>f_type = ''NO_WILD'', f_detail = NoWild\<rparr>]) @
                           (if has_scatter then [] else [\<lparr>f_type = ''NO_SCATTER'', f_detail = NoScatter\<rparr>]),
                         sa_passed := sa_passed a2 @
                           (if has_wild then [WildPresent] else []) @
                           (if has_scatter then [ScatterPresent] else [])\<rparr>;
                 paytable_symbols = remdups (filter (\<lambda>s. s \<noteq> []) stripped);
                 a5 = reels_step (reels_file d) paytable_symbols a4;
                 max_pay = fold max (concat (map (\<lambda>row. map (\<lambda>(n, col). pay_value float row col) pay_cols)
                                                paytable_data)) 0;
                 a6 = (if pay_cols \<noteq> [] \<and> paytable_data \<noteq> [] \<and> max_pay > 0
                       then a5\<lparr>sa_passed := sa_passed a5 @ [HighestPay max_pay]\<rparr> else a5)
             in Inr \<lparr>s_verdict = sanity_verdict (issues a6) (sa_warnings a6),
                     s_issues = issues a6, s_warnings = sa_warnings a6,
                     s_checks_passed = sa_passed a6,
                     symbol_count = Some (length paytable_symbols),
                     reel_symbol_count = Some (reel_symbol_count_of (reels_file d))\<rparr>))))"

text \<open>
  Concrete inputs: \<open>float\<close> on plain decimal numerals, a paytable of four symbols and
  reel strips of one reel with \<open>n\<close> positions.
\<close>

definition decimal_float :: "string \<Rightarrow> rat option" where
  "decimal_float s =
     (if s \<noteq> [] \<and> list_all (\<lambda>c. 48 \<le> (of_char c :: nat) \<and> (of_char c :: nat) \<le> 57) s
      then Some (of_nat (foldl (\<lambda>acc c. 10 * acc + (of_char c - 48)) (0 :: nat) s)) else None)"

definition pay_row :: "string \<Rightarrow> string \<Rightarrow> string \<Rightarrow> string \<Rightarrow> csv_row" where
  "pay_row name p3 p4 p5 =
     [(''Symbol'', Some name), (''3OAK'', Some p3), (''4OAK'', Some p4), (''5OAK'', Some p5)]"

definition sample_paytable :: paytable_input where
  "sample_paytable =
     PtTable [''Symbol'', ''3OAK'', ''4OAK'', ''5OAK'']
       [pay_row ''A'' ''2'' ''5'' ''10'', pay_row ''K'' ''3'' ''6'' ''12'',
        pay_row ''WILD'' ''0'' ''0'' ''0'', pay_row ''SCATTER'' ''0'' ''0'' ''0'']"

definition reel_cycle :: "string list" where
  "reel_cycle = [''A'', ''K'', ''WILD'', ''SCATTER'']"

definition reel_of :: "nat \<Rightarrow> reels_input" where
  "reel_of n = RlTable [''Reel 1''] (map (\<lambda>s. [s]) (take n (concat (replicate 5 reel_cycle))))"

definition math_dir_with_reel :: "nat \<Rightarrow> math_dir" where
  "math_dir_with_reel n = \<lparr>paytable_file = sample_paytable, reels_file = reel_of n\<rparr>"


section \<open>Properties of the convergence loop\<close>





































section \<open>Properties of the compliance checker\<close>

lemmas profile_defs = UK_profile_def Malta_profile_def Ontario_profile_def Sweden_profile_def
  New_Jersey_profile_def Spain_profile_def Curacao_profile_def Georgia_profile_def
  Texas_profile_def

lemma store_rtp_min_nonneg: "\<forall>(k, p) \<in> set JURISDICTION_PROFILES. 0 \<le> rtp_min p"
  by (simp add: JURISDICTION_PROFILES_def profile_defs)

lemma find_profile_in_store:
  assumes "find_profile m = Some (k, p)"
  shows "(k, p) \<in> set JURISDICTION_PROFILES"
proof (cases "map_of JURISDICTION_PROFILES m")
  case None
  with assms have "find (\<lambda>(k, v). lower k = strip (lower m)) JURISDICTION_PROFILES = Some (k, p)"
    by (simp add: find_profile_def)
  then show ?thesis by (metis find_Some_iff nth_mem)
next
  case (Some q)
  with assms have "k = m" "p = q" by (simp_all add: find_profile_def)
  with Some show ?thesis by (auto dest: map_of_SomeD)
qed

lemma resolved_rtp_min_nonneg: "p \<in> set (resolved_profiles ms) \<Longrightarrow> 0 \<le> rtp_min p"
proof -
  assume "p \<in> set (resolved_profiles ms)"
  then obtain m k where "find_profile m = Some (k, p)"
    by (auto simp: resolved_profiles_def List.map_filter_def)
  from find_profile_in_store[OF this] store_rtp_min_nonneg show ?thesis by auto
qed

lemma resolved_profiles_Cons:
  "resolved_profiles (m # ms) =
     (case find_profile m of None \<Rightarrow> resolved_profiles ms
      | Some (k, p) \<Rightarrow> p # resolved_profiles ms)"
  by (simp add: resolved_profiles_def List.map_filter_def split: option.splits)

lemma tightest_check_market:
  "tightest_min_rtp (check_market r w fs st m) =
     (case find_profile m of None \<Rightarrow> tightest_min_rtp st
      | Some (k, p) \<Rightarrow> max (tightest_min_rtp st) (rtp_min p))"
  by (simp add: check_market_def check_profile_def Let_def split: option.splits)

lemma tightest_foldl:
  "tightest_min_rtp (foldl (check_market r w fs) st ms) =
     fold max (map rtp_min (resolved_profiles ms)) (tightest_min_rtp st)"
proof (induction ms arbitrary: st)
  case Nil
  then show ?case by (simp add: resolved_profiles_def List.map_filter_def)
next
  case (Cons m ms)
  show ?case
    by (simp add: Cons.IH tightest_check_market resolved_profiles_Cons max.commute
        split: option.splits)
qed

lemma fold_max_floor:
  fixes xs :: "rat list"
  assumes "\<forall>x \<in> set xs. 0 \<le> x"
  shows "fold max xs 0 = (if xs = [] then 0 else Max (set xs))"
proof (cases xs)
  case Nil
  then show ?thesis by simp
next
  case (Cons y ys)
  have "fold max xs 0 = Max (set (0 # xs))" by (simp only: Max.set_eq_fold)
  also have "\<dots> = max 0 (Max (set xs))" using Cons by simp
  also have "\<dots> = Max (set xs)"
  proof -
    have "y \<le> Max (set xs)" using Cons by simp
    moreover have "0 \<le> y" using assms Cons by simp
    ultimately show ?thesis by simp
  qed
  finally show ?thesis using Cons by simp
qed

lemma tightest_init: "tightest_min_rtp checker_init = 0"
  by (simp add: checker_init_def)

text \<open>
  Claim C2, amended: for every list of market names the intersection has exactly the five
  entries \<open>tightest_min_rtp\<close>, \<open>rtp_compliant\<close>, \<open>features_banned_in_any_market\<close>,
  \<open>all_required_rg_features\<close> and \<open>slowest_min_cycle_ms\<close>, so it records no max-win cap;
  and \<open>tightest_min_rtp\<close> is the maximum of the minimum-RTP bounds of the profiles the
  names resolve to, or 0 when no name resolves.
\<close>

theorem C2_intersection_tightest_min_rtp:
  "map fst (r_intersection (check_jurisdiction_compliance markets proposed_rtp proposed_max_win proposed_features)) =
     [''tightest_min_rtp'', ''rtp_compliant'', ''features_banned_in_any_market'',
      ''all_required_rg_features'', ''slowest_min_cycle_ms''] \<and>
   map_of (r_intersection (check_jurisdiction_compliance markets proposed_rtp proposed_max_win proposed_features))
       ''tightest_min_rtp'' =
     Some (JNum (if resolved_profiles markets = [] then 0
                 else Max (set (map rtp_min (resolved_profiles markets)))))"
proof -
  have "\<forall>x \<in> set (map rtp_min (resolved_profiles markets)). 0 \<le> x"
    using resolved_rtp_min_nonneg by auto
  from fold_max_floor[OF this] show ?thesis
    by (simp add: check_jurisdiction_compliance_def build_results_def tightest_foldl tightest_init)
qed

lemma resolved_UK_Sweden:
  "resolved_profiles [''UK'', '' sweden '', ''Mars''] = [UK_profile, Sweden_profile]"
  by (simp add: resolved_profiles_def List.map_filter_def find_profile_def JURISDICTION_PROFILES_def
      lower_def strip_def isspace_def)

text \<open>Claim C2, amended, at the markets UK, Sweden (in another spelling) and an unknown one.\<close>

theorem C2_intersection_witness:
  "map_of (r_intersection (check_jurisdiction_compliance [''UK'', '' sweden '', ''Mars''] 96 5000 [''bonus_buy'']))
       ''tightest_min_rtp'' = Some (JNum 80)"
  using C2_intersection_tightest_min_rtp[of "[''UK'', '' sweden '', ''Mars'']" 96 5000 "[''bonus_buy'']"]
  by (simp add: resolved_UK_Sweden UK_profile_def Sweden_profile_def)

text \<open>
  Claim C2 says the intersection carries a max-win cap, the minimum of the markets' caps.
  For UK and Sweden the intersection has the five entries below and none for a max-win
  cap; and for no market at all \<open>tightest_min_rtp\<close> is 0, the loop's starting value.
\<close>

theorem C2_counterexample_no_max_win_cap:
  "map fst (r_intersection (check_jurisdiction_compliance [''UK'', ''Sweden''] 96 5000 [''bonus_buy''])) =
     [''tightest_min_rtp'', ''rtp_compliant'', ''features_banned_in_any_market'',
      ''all_required_rg_features'', ''slowest_min_cycle_ms''] \<and>
   map_of (r_intersection (check_jurisdiction_compliance [''UK'', ''Sweden''] 96 5000 [''bonus_buy'']))
     ''max_win_cap'' = None \<and>
   map_of (r_intersection (check_jurisdiction_compliance [] 96 5000 [])) ''tightest_min_rtp'' = Some (JNum 0)"
  by (simp add: check_jurisdiction_compliance_def build_results_def checker_init_def)

section \<open>Properties of the convergence validator\<close>

text \<open>Each step only appends to the three lists; what it appends is written out.\<close>

lemma acc_add [simp]:
  "a_conflicts (add_conflict c a) = a_conflicts a @ [c]"
  "a_warnings (add_conflict c a) = a_warnings a"
  "a_passed (add_conflict c a) = a_passed a"
  "a_conflicts (add_warning w a) = a_conflicts a"
  "a_warnings (add_warning w a) = a_warnings a @ [w]"
  "a_passed (add_warning w a) = a_passed a"
  "a_conflicts (add_passed p a) = a_conflicts a"
  "a_warnings (add_passed p a) = a_warnings a"
  "a_passed (add_passed p a) = a_passed a @ [p]"
  by (simp_all add: add_conflict_def add_warning_def add_passed_def)

lemma read_gdd_conflicts:
  "a_conflicts (read_gdd d a) = a_conflicts a @
     (if gdd_md d = None then [\<lparr>c_type = ''MISSING_FILE'', severity = ''BLOCKER'',
                                 c_detail = GddNotFound, instruction_to = None\<rparr>] else [])"
  by (simp add: read_gdd_def split: option.splits)

lemma read_gdd_warnings: "a_warnings (read_gdd d a) = a_warnings a"
  by (simp add: read_gdd_def split: option.splits)

lemma read_gdd_passed:
  "a_passed (read_gdd d a) = a_passed a @ (if gdd_md d = None then [] else [GddExists])"
  by (simp add: read_gdd_def split: option.splits)

lemma read_paytable_conflicts:
  "a_conflicts (read_paytable d a) = a_conflicts a @
     (if paytable_csv d = PaytableAbsent then [\<lparr>c_type = ''MISSING_FILE'', severity = ''BLOCKER'',
                                 c_detail = PaytableNotFound, instruction_to = None\<rparr>] else [])"
  by (simp add: read_paytable_def split: paytable_file.splits)

lemma read_simulation_conflicts:
  "a_conflicts (read_simulation d a) = a_conflicts a @
     (if simulation_results_json d = SimAbsent then [\<lparr>c_type = ''MISSING_FILE'', severity = ''HIGH'',
                                 c_detail = SimulationNotFound, instruction_to = None\<rparr>] else [])"
  by (simp add: read_simulation_def split: sim_file.splits)

lemma rtp_check_conflicts:
  "a_conflicts (rtp_check sim t a) = a_conflicts a @
     (case get (measured_rtp sim) of None \<Rightarrow> []
      | Some m \<Rightarrow> if \<bar>m - t\<bar> > 1 then [rtp_conflict m t] else [])"
  by (simp add: rtp_check_def rtp_conflict_def Let_def split: option.splits)

lemma rtp_check_warnings:
  "a_warnings (rtp_check sim t a) = a_warnings a @
     (case get (measured_rtp sim) of None \<Rightarrow> []
      | Some m \<Rightarrow> if \<not> \<bar>m - t\<bar> > 1 \<and> \<bar>m - t\<bar> > 1 / 2
                  then [rtp_warning m t] else [])"
  by (simp add: rtp_check_def rtp_warning_def Let_def split: option.splits)

lemma rtp_check_passed:
  "a_passed (rtp_check sim t a) = a_passed a @
     (case get (measured_rtp sim) of None \<Rightarrow> []
      | Some m \<Rightarrow> if \<not> \<bar>m - t\<bar> > 1 / 2 then [RtpWithin m t \<bar>m - t\<bar>] else [])"
  by (auto simp add: rtp_check_def Let_def split: option.splits)

lemma caps_nonzero: "map_of MAX_WIN_CAPS k = Some (Some cap) \<Longrightarrow> cap \<noteq> 0"
  by (auto simp: MAX_WIN_CAPS_def split: if_splits)

lemma market_cap_check_acc:
  "a_conflicts (market_cap_check mw a m) =
     a_conflicts a @ (case cap_blocker mw m of None \<Rightarrow> [] | Some c \<Rightarrow> [c])"
  "a_passed (market_cap_check mw a m) =
     a_passed a @ (case cap_pass mw m of None \<Rightarrow> [] | Some p \<Rightarrow> [p])"
  "a_warnings (market_cap_check mw a m) = a_warnings a"
  using caps_nonzero[of "strip (lower m)"]
  by (auto simp: market_cap_check_def cap_of_def cap_blocker_def cap_pass_def cap_conflict_def
      split: option.splits)

lemma market_caps_conflicts:
  "a_conflicts (foldl (market_cap_check mw) a ms) =
     a_conflicts a @ List.map_filter (cap_blocker mw) ms"
  by (induction ms arbitrary: a)
     (simp_all add: market_cap_check_acc List.map_filter_simps split: option.splits)

lemma market_caps_passed:
  "a_passed (foldl (market_cap_check mw) a ms) =
     a_passed a @ List.map_filter (cap_pass mw) ms"
  by (induction ms arbitrary: a)
     (simp_all add: market_cap_check_acc List.map_filter_simps split: option.splits)

lemma market_caps_warnings:
  "a_warnings (foldl (market_cap_check mw) a ms) = a_warnings a"
  by (induction ms arbitrary: a) (simp_all add: market_cap_check_acc)


lemma max_win_check_Inr:
  assumes "max_win_check sim mt ms a = Inr a'"
  shows "a_conflicts a' = a_conflicts a @
           (case get (max_win_achieved sim) of None \<Rightarrow> []
            | Some mw \<Rightarrow>
                (if mw > of_int mt * (6 / 5)
                 then [target_conflict mw mt] else []) @
                List.map_filter (cap_blocker mw) ms)"
    and "a_passed a' = a_passed a @
           (case get (max_win_achieved sim) of None \<Rightarrow> []
            | Some mw \<Rightarrow> List.map_filter (cap_pass mw) ms)"
    and "a_warnings a' = a_warnings a"
  using assms
  by (auto simp: max_win_check_def max_win_target_check_def target_conflict_def market_caps_conflicts
      market_caps_passed market_caps_warnings split: option.splits if_splits sum.splits)

lemma max_win_check_Inl:
  "max_win_check sim mt ms a = Inl e \<longleftrightarrow>
     e = ZeroDivisionError \<and> mt = 0 \<and> (\<exists>mw. get (max_win_achieved sim) = Some mw \<and> mw > 0)"
  by (auto simp: max_win_check_def max_win_target_check_def split: option.splits sum.splits)

lemma breakdown_check_conflicts:
  "a_conflicts (breakdown_check sim a) = a_conflicts a @
     (case reconciled sim of None \<Rightarrow> []
      | Some (tot, m) \<Rightarrow> if \<bar>tot - m\<bar> > 1 then [breakdown_conflict tot m] else [])"
  by (simp add: breakdown_check_def reconciled_def breakdown_conflict_def Let_def
      split: option.splits)

lemma breakdown_check_passed:
  "a_passed (breakdown_check sim a) = a_passed a @
     (case reconciled sim of None \<Rightarrow> []
      | Some (tot, m) \<Rightarrow> if \<bar>tot - m\<bar> > 1 then [] else [BreakdownSums tot m])"
  by (simp add: breakdown_check_def reconciled_def Let_def split: option.splits)

lemma breakdown_check_warnings: "a_warnings (breakdown_check sim a) = a_warnings a"
  by (simp add: breakdown_check_def Let_def split: option.splits)

lemma feature_loop_Inr:
  "feature_loop g b kws a = Inr a' \<Longrightarrow>
     a_conflicts a' = a_conflicts a \<and> a_passed a' = a_passed a \<and>
     (\<exists>ws. a_warnings a' = a_warnings a @ ws \<and> (\<forall>w \<in> set ws. w_type w = ''FEATURE_UNCOSTED''))"
proof (induction g b kws a rule: feature_loop.induct)
  case (1 g b a)
  then show ?case by simp
next
  case (2 g b gdd_term math_key kws a)
  show ?case
  proof (cases "contains gdd_term g")
    case False
    with 2 show ?thesis by simp
  next
    case True
    with "2.prems" obtain bd where bd: "b = Some bd" by (cases b) auto
    define a1 where "a1 = (if \<not> list_ex (\<lambda>(k, v). contains math_key (lower k) \<or>
                                      contains (spaces_to_underscores gdd_term) (lower k)) bd \<and> bd \<noteq> []
                   then add_warning \<lparr>w_type = ''FEATURE_UNCOSTED'', w_detail = FeatureUncosted gdd_term\<rparr> a
                   else a)"
    from "2.prems" True bd have r: "feature_loop g b kws a1 = Inr a'"
      by (simp add: a1_def Let_def)
    from "2.IH"(1)[OF True bd refl] r
    have ih: "a_conflicts a' = a_conflicts a1 \<and> a_passed a' = a_passed a1 \<and>
       (\<exists>ws. a_warnings a' = a_warnings a1 @ ws \<and> (\<forall>w \<in> set ws. w_type w = ''FEATURE_UNCOSTED''))"
      by (simp add: a1_def Let_def)
    then obtain ws where ws: "a_warnings a' = a_warnings a1 @ ws" "\<forall>w \<in> set ws. w_type w = ''FEATURE_UNCOSTED''"
      by blast
    have "\<exists>ws1. a_warnings a1 = a_warnings a @ ws1 \<and> (\<forall>w \<in> set ws1. w_type w = ''FEATURE_UNCOSTED'')"
      by (simp add: a1_def)
    then obtain ws1 where ws1: "a_warnings a1 = a_warnings a @ ws1" "\<forall>w \<in> set ws1. w_type w = ''FEATURE_UNCOSTED''"
      by blast
    have "a_warnings a' = a_warnings a @ (ws1 @ ws)" using ws ws1 by simp
    moreover have "\<forall>w \<in> set (ws1 @ ws). w_type w = ''FEATURE_UNCOSTED''" using ws ws1 by auto
    moreover have "a_conflicts a' = a_conflicts a" "a_passed a' = a_passed a"
      using ih by (simp_all add: a1_def)
    ultimately show ?thesis by blast
  qed
qed

lemma feature_check_Inr:
  assumes "feature_check g sim a = Inr a'"
  shows "a_conflicts a' = a_conflicts a" "a_passed a' = a_passed a"
    "\<exists>ws. a_warnings a' = a_warnings a @ ws \<and> (\<forall>w \<in> set ws. w_type w = ''FEATURE_UNCOSTED'') \<and>
          (\<not> (g \<noteq> [] \<and> sim_nonempty sim) \<longrightarrow> ws = [])"
  using assms feature_loop_Inr[of "lower g" "breakdown_of sim" feature_keywords a a']
  by (auto simp: feature_check_def split: if_splits)

lemma feature_loop_Some: "\<exists>a'. feature_loop g (Some bd) kws a = Inr a'"
  by (induction kws arbitrary: a) (auto simp: Let_def)

lemma feature_check_returns:
  "rtp_breakdown sim \<noteq> Null \<or> \<not> sim_nonempty sim \<or> g = [] \<Longrightarrow> \<exists>a'. feature_check g sim a = Inr a'"
  using feature_loop_Some[of "lower g" _ feature_keywords a]
  by (cases "rtp_breakdown sim") (auto simp: feature_check_def breakdown_of_def)

lemma symbol_count_check_acc:
  "a_conflicts (symbol_count_check pt g a) = a_conflicts a"
  "a_passed (symbol_count_check pt g a) = a_passed a"
  "a_warnings (symbol_count_check pt g a) = a_warnings a @
     (if pt \<noteq> [] \<and> g \<noteq> [] \<and> length pt < 8
      then [\<lparr>w_type = ''LOW_SYMBOL_COUNT'', w_detail = FewSymbols (length pt)\<rparr>] else [])"
  by (simp_all add: symbol_count_check_def)

lemma reels_check_acc:
  "a_conflicts (reels_check d pt a) = a_conflicts a @
     (if BaseReels_csv d = ReelsAbsent \<and> pt \<noteq> [] then [missing_reels] else [])"
  "a_warnings (reels_check d pt a) = a_warnings a"
  "a_passed (reels_check d pt a) = a_passed a @
     (case BaseReels_csv d of ReelsText t \<Rightarrow> [ReelPositions (int (length (reel_lines t)) - 1)] | _ \<Rightarrow> [])"
  by (simp_all add: reels_check_def missing_reels_def split: reels_file.splits)

lemma validate_InrE:
  assumes "validate_convergence d t mt ms = Inr rep"
  obtains a5 a7 where
    "max_win_check (sim_of d) mt ms (rtp_check (sim_of d) t (read_simulation d (read_paytable d
        (read_gdd d \<lparr>a_conflicts = [], a_warnings = [], a_passed = []\<rparr>)))) = Inr a5"
    "feature_check (gdd_text_of d) (sim_of d) (breakdown_check (sim_of d) a5) = Inr a7"
    "rep = make_report (reels_check d (paytable_of d) (symbol_count_check (paytable_of d) (gdd_text_of d) a7))"
  using assms unfolding validate_convergence_def Let_def
  by (auto split: sum.splits)


lemma read_paytable_passed_eq:
  "a_passed (read_paytable d a) = a_passed a @
     (case paytable_csv d of PaytableRows syms failed \<Rightarrow>
         if failed then [] else [PaytableSymbols (length (remdups syms))]
      | PaytableAbsent \<Rightarrow> [])"
  by (simp add: read_paytable_def split: paytable_file.splits)

lemma read_paytable_warnings_eq:
  "a_warnings (read_paytable d a) = a_warnings a @
     (case paytable_csv d of PaytableRows syms failed \<Rightarrow>
         if failed then [\<lparr>w_type = ''PARSE_ERROR'', w_detail = PaytableParseError\<rparr>] else []
      | PaytableAbsent \<Rightarrow> [])"
  by (simp add: read_paytable_def split: paytable_file.splits)

lemma read_simulation_passed_eq:
  "a_passed (read_simulation d a) = a_passed a @
     (case simulation_results_json d of SimJson s \<Rightarrow> [SimulationSpins (get (total_spins s))] | _ \<Rightarrow> [])"
  by (simp add: read_simulation_def split: sim_file.splits)

lemma read_simulation_warnings_eq:
  "a_warnings (read_simulation d a) = a_warnings a @
     (case simulation_results_json d of
        SimUnparseable \<Rightarrow> [\<lparr>w_type = ''PARSE_ERROR'', w_detail = SimulationParseError\<rparr>] | _ \<Rightarrow> [])"
  by (simp add: read_simulation_def split: sim_file.splits)

lemma validate_conflicts:
  assumes "validate_convergence d t mt ms = Inr rep"
  shows "conflicts rep =
     (if gdd_md d = None then [missing_gdd] else []) @
     (if paytable_csv d = PaytableAbsent then [missing_paytable] else []) @
     (if simulation_results_json d = SimAbsent then [missing_simulation] else []) @
     (case get (measured_rtp (sim_of d)) of None \<Rightarrow> []
      | Some m \<Rightarrow> if \<bar>m - t\<bar> > 1 then [rtp_conflict m t] else []) @
     (case get (max_win_achieved (sim_of d)) of None \<Rightarrow> []
      | Some mw \<Rightarrow> (if mw > of_int mt * (6 / 5) then [target_conflict mw mt] else []) @
                    List.map_filter (cap_blocker mw) ms) @
     (case reconciled (sim_of d) of None \<Rightarrow> []
      | Some (tot, m) \<Rightarrow> if \<bar>tot - m\<bar> > 1 then [breakdown_conflict tot m] else []) @
     (if BaseReels_csv d = ReelsAbsent \<and> paytable_of d \<noteq> [] then [missing_reels] else [])"
proof -
  from assms obtain a5 a7 where
    a5: "max_win_check (sim_of d) mt ms (rtp_check (sim_of d) t (read_simulation d (read_paytable d
        (read_gdd d \<lparr>a_conflicts = [], a_warnings = [], a_passed = []\<rparr>)))) = Inr a5"
    and a7: "feature_check (gdd_text_of d) (sim_of d) (breakdown_check (sim_of d) a5) = Inr a7"
    and rep: "rep = make_report (reels_check d (paytable_of d) (symbol_count_check (paytable_of d) (gdd_text_of d) a7))"
    by (rule validate_InrE)
  show ?thesis
    unfolding rep make_report_def
    by (simp add: reels_check_acc symbol_count_check_acc feature_check_Inr(1)[OF a7]
        breakdown_check_conflicts max_win_check_Inr(1)[OF a5] rtp_check_conflicts
        read_simulation_conflicts read_paytable_conflicts read_gdd_conflicts
        missing_gdd_def missing_paytable_def missing_simulation_def rtp_conflict_def
        target_conflict_def)
qed

lemma validate_passed:
  assumes "validate_convergence d t mt ms = Inr rep"
  shows "checks_passed rep =
     (if gdd_md d = None then [] else [GddExists]) @
     (case paytable_csv d of PaytableRows syms failed \<Rightarrow>
         if failed then [] else [PaytableSymbols (length (remdups syms))]
      | PaytableAbsent \<Rightarrow> []) @
     (case simulation_results_json d of SimJson s \<Rightarrow> [SimulationSpins (get (total_spins s))] | _ \<Rightarrow> []) @
     (case get (measured_rtp (sim_of d)) of None \<Rightarrow> []
      | Some m \<Rightarrow> if \<not> \<bar>m - t\<bar> > 1 / 2 then [RtpWithin m t \<bar>m - t\<bar>] else []) @
     (case get (max_win_achieved (sim_of d)) of None \<Rightarrow> []
      | Some mw \<Rightarrow> List.map_filter (cap_pass mw) ms) @
     (case reconciled (sim_of d) of None \<Rightarrow> []
      | Some (tot, m) \<Rightarrow> if \<bar>tot - m\<bar> > 1 then [] else [BreakdownSums tot m]) @
     (case BaseReels_csv d of ReelsText x \<Rightarrow> [ReelPositions (int (length (reel_lines x)) - 1)] | _ \<Rightarrow> [])"
proof -
  from assms obtain a5 a7 where
    a5: "max_win_check (sim_of d) mt ms (rtp_check (sim_of d) t (read_simulation d (read_paytable d
        (read_gdd d \<lparr>a_conflicts = [], a_warnings = [], a_passed = []\<rparr>)))) = Inr a5"
    and a7: "feature_check (gdd_text_of d) (sim_of d) (breakdown_check (sim_of d) a5) = Inr a7"
    and rep: "rep = make_report (reels_check d (paytable_of d) (symbol_count_check (paytable_of d) (gdd_text_of d) a7))"
    by (rule validate_InrE)
  show ?thesis
    unfolding rep make_report_def
    by (simp add: reels_check_acc symbol_count_check_acc feature_check_Inr(2)[OF a7]
        breakdown_check_passed max_win_check_Inr(2)[OF a5] rtp_check_passed
        read_simulation_passed_eq read_paytable_passed_eq read_gdd_passed)
qed

lemma validate_warnings:
  assumes "validate_convergence d t mt ms = Inr rep"
  shows "\<exists>fw. v_warnings rep =
     (case paytable_csv d of PaytableRows syms failed \<Rightarrow>
         if failed then [\<lparr>w_type = ''PARSE_ERROR'', w_detail = PaytableParseError\<rparr>] else []
      | PaytableAbsent \<Rightarrow> []) @
     (case simulation_results_json d of
        SimUnparseable \<Rightarrow> [\<lparr>w_type = ''PARSE_ERROR'', w_detail = SimulationParseError\<rparr>] | _ \<Rightarrow> []) @
     (case get (measured_rtp (sim_of d)) of None \<Rightarrow> []
      | Some m \<Rightarrow> if \<not> \<bar>m - t\<bar> > 1 \<and> \<bar>m - t\<bar> > 1 / 2 then [rtp_warning m t] else []) @
     fw @
     (if paytable_of d \<noteq> [] \<and> gdd_text_of d \<noteq> [] \<and> length (paytable_of d) < 8
      then [\<lparr>w_type = ''LOW_SYMBOL_COUNT'', w_detail = FewSymbols (length (paytable_of d))\<rparr>] else []) \<and>
     (\<forall>w \<in> set fw. w_type w = ''FEATURE_UNCOSTED'') \<and>
     (\<not> (gdd_text_of d \<noteq> [] \<and> sim_nonempty (sim_of d)) \<longrightarrow> fw = [])"
proof -
  from assms obtain a5 a7 where
    a5: "max_win_check (sim_of d) mt ms (rtp_check (sim_of d) t (read_simulation d (read_paytable d
        (read_gdd d \<lparr>a_conflicts = [], a_warnings = [], a_passed = []\<rparr>)))) = Inr a5"
    and a7: "feature_check (gdd_text_of d) (sim_of d) (breakdown_check (sim_of d) a5) = Inr a7"
    and rep: "rep = make_report (reels_check d (paytable_of d) (symbol_count_check (paytable_of d) (gdd_text_of d) a7))"
    by (rule validate_InrE)
  from feature_check_Inr(3)[OF a7] obtain fw where
    fw: "a_warnings a7 = a_warnings (breakdown_check (sim_of d) a5) @ fw"
      "\<forall>w \<in> set fw. w_type w = ''FEATURE_UNCOSTED''"
      "\<not> (gdd_text_of d \<noteq> [] \<and> sim_nonempty (sim_of d)) \<longrightarrow> fw = []"
    by blast
  have "v_warnings rep =
     (case paytable_csv d of PaytableRows syms failed \<Rightarrow>
         if failed then [\<lparr>w_type = ''PARSE_ERROR'', w_detail = PaytableParseError\<rparr>] else []
      | PaytableAbsent \<Rightarrow> []) @
     (case simulation_results_json d of
        SimUnparseable \<Rightarrow> [\<lparr>w_type = ''PARSE_ERROR'', w_detail = SimulationParseError\<rparr>] | _ \<Rightarrow> []) @
     (case get (measured_rtp (sim_of d)) of None \<Rightarrow> []
      | Some m \<Rightarrow> if \<not> \<bar>m - t\<bar> > 1 \<and> \<bar>m - t\<bar> > 1 / 2 then [rtp_warning m t] else []) @
     fw @
     (if paytable_of d \<noteq> [] \<and> gdd_text_of d \<noteq> [] \<and> length (paytable_of d) < 8
      then [\<lparr>w_type = ''LOW_SYMBOL_COUNT'', w_detail = FewSymbols (length (paytable_of d))\<rparr>] else [])"
    unfolding rep make_report_def
    by (simp add: reels_check_acc symbol_count_check_acc fw(1)
        breakdown_check_warnings max_win_check_Inr(3)[OF a5] rtp_check_warnings
        read_simulation_warnings_eq read_paytable_warnings_eq read_gdd_warnings rtp_warning_def)
  with fw(2,3) show ?thesis by blast
qed

lemma validate_verdict:
  assumes "validate_convergence d t mt ms = Inr rep"
  shows "verdict rep =
     (if \<exists>c \<in> set (conflicts rep). severity c = ''BLOCKER'' \<or> severity c = ''HIGH''
      then ''NOT_CONVERGED''
      else if length (v_warnings rep) > 3 then ''MARGINAL'' else ''CONVERGED'')"
proof -
  from assms obtain a where rep: "rep = make_report a"
    by (rule validate_InrE)
  have "\<And>P xs. (0 < length (filter P xs)) = (\<exists>x \<in> set xs. P x)"
    by (simp add: filter_empty_conv)
  then show ?thesis
    unfolding rep make_report_def decide_def Let_def by auto
qed

lemma validate_returns:
  assumes "mt \<noteq> 0 \<or> get (max_win_achieved (sim_of d)) = None"
    and "rtp_breakdown (sim_of d) \<noteq> Null \<or> \<not> sim_nonempty (sim_of d) \<or> gdd_text_of d = []"
  shows "\<exists>rep. validate_convergence d t mt ms = Inr rep"
proof -
  let ?a4 = "rtp_check (sim_of d) t (read_simulation d (read_paytable d
        (read_gdd d \<lparr>a_conflicts = [], a_warnings = [], a_passed = []\<rparr>)))"
  have "\<not> (\<exists>e. max_win_check (sim_of d) mt ms ?a4 = Inl e)"
    using assms(1) by (auto simp: max_win_check_Inl)
  then obtain a5 where a5: "max_win_check (sim_of d) mt ms ?a4 = Inr a5"
    by (cases "max_win_check (sim_of d) mt ms ?a4") auto
  from feature_check_returns[OF assms(2)] obtain a7 where
    a7: "feature_check (gdd_text_of d) (sim_of d) (breakdown_check (sim_of d) a5) = Inr a7"
    by blast
  show ?thesis
    unfolding validate_convergence_def Let_def by (simp add: a5 a7)
qed

lemma sim_absent_facts:
  assumes "simulation_results_json d = SimAbsent"
  shows "sim_of d = empty_sim" "get (measured_rtp (sim_of d)) = None"
    "get (max_win_achieved (sim_of d)) = None" "reconciled (sim_of d) = None"
    "\<not> sim_nonempty (sim_of d)"
  using assms
  by (simp_all add: sim_of_def empty_sim_def reconciled_def breakdown_of_def sim_nonempty_def)

section \<open>Missing files, RTP breakdown and max-win caps in the validator\<close>

lemmas dir_eval = sample_dir_def sample_sim_def sample_gdd_def no_sim_dir_def
  no_sim_no_reels_dir_def consistent_sim_def header_only_paytable_dir_def zero_rtp_dir_def
  no_rtp_dir_def

lemmas validate_eval = validate_convergence_def gdd_text_of_def paytable_of_def sim_of_def
  read_gdd_def read_paytable_def read_simulation_def rtp_check_def max_win_check_def
  max_win_target_check_def market_cap_check_def cap_of_def MAX_WIN_CAPS_def breakdown_check_def
  breakdown_of_def breakdown_total_def List.map_filter_simps feature_check_def feature_keywords_def
  sim_nonempty_def symbol_count_check_def reels_check_def reel_lines_def make_report_def
  decide_def add_conflict_def add_warning_def add_passed_def lower_def strip_def isspace_def
  spaces_to_underscores_def empty_sim_def Let_def

lemma no_sim_run:
  "validate_convergence no_sim_dir 96 5000 [''UK''] =
     Inr \<lparr>verdict = ''NOT_CONVERGED'',
          conflicts = [\<lparr>c_type = ''MISSING_FILE'', severity = ''HIGH'',
                        c_detail = SimulationNotFound, instruction_to = None\<rparr>],
          v_warnings = [],
          checks_passed = [GddExists, PaytableSymbols 8, ReelPositions 2]\<rparr>"
  by (simp add: dir_eval validate_eval)

lemma header_only_run:
  "validate_convergence header_only_paytable_dir 96 5000 [''UK''] =
     Inr \<lparr>verdict = ''CONVERGED'', conflicts = [], v_warnings = [],
          checks_passed = [GddExists, PaytableSymbols 0, SimulationSpins (Some 1000000),
                           RtpWithin 96 96 0, MaxWinWithinCap 4000 ''UK'' 10000,
                           BreakdownSums 96 96]\<rparr>"
  by (simp add: dir_eval validate_eval)

lemma zero_rtp_run:
  "validate_convergence zero_rtp_dir 96 20000 [] =
     Inr \<lparr>verdict = ''NOT_CONVERGED'',
          conflicts = [\<lparr>c_type = ''RTP_DEVIATION'', severity = ''BLOCKER'',
                        c_detail = RtpDeviates 0 96 96, instruction_to = Some ''mathematician''\<rparr>],
          v_warnings = [],
          checks_passed = [GddExists, PaytableSymbols 8, SimulationSpins (Some 1000000),
                           ReelPositions 2]\<rparr>"
  by (simp add: dir_eval validate_eval)

lemma sample_run:
  "validate_convergence sample_dir 96 5000 [''UK'', ''Curacao'', ''Mars'', '' Malta ''] =
     Inr \<lparr>verdict = ''NOT_CONVERGED'',
          conflicts = [target_conflict 12000 5000, cap_conflict 12000 ''UK'' 10000,
                       breakdown_conflict (161 / 2) 96],
          v_warnings = [],
          checks_passed = [GddExists, PaytableSymbols 8, SimulationSpins (Some 1000000),
                           RtpWithin 96 96 0, MaxWinWithinCap 12000 '' Malta '' 50000,
                           ReelPositions 2]\<rparr>"
  by (simp add: dir_eval validate_eval target_conflict_def cap_conflict_def breakdown_conflict_def)


lemma no_sim_no_reels_run:
  "validate_convergence no_sim_no_reels_dir 96 5000 [''UK''] =
     Inr \<lparr>verdict = ''NOT_CONVERGED'',
          conflicts = [missing_simulation, missing_reels],
          v_warnings = [],
          checks_passed = [GddExists, PaytableSymbols 8]\<rparr>"
  by (simp add: dir_eval validate_eval missing_simulation_def missing_reels_def)

text \<open>
  Claim C4 says a missing simulation-results file, and likewise a missing reel-strip
  file, is recorded as a conflict of severity BLOCKER, so that the verdict is
  NOT_CONVERGED. In a directory that lacks only \<open>simulation_results.json\<close> the one
  conflict recorded has severity HIGH. In a directory that lacks \<open>BaseReels.csv\<close> and
  whose paytable file has a header and no rows, nothing is recorded for the reels and the
  verdict is CONVERGED.
\<close>

theorem C4_counterexample_missing_files_are_high:
  "validate_convergence no_sim_dir 96 5000 [''UK''] =
     Inr \<lparr>verdict = ''NOT_CONVERGED'',
          conflicts = [\<lparr>c_type = ''MISSING_FILE'', severity = ''HIGH'',
                        c_detail = SimulationNotFound, instruction_to = None\<rparr>],
          v_warnings = [],
          checks_passed = [GddExists, PaytableSymbols 8, ReelPositions 2]\<rparr> \<and>
   BaseReels_csv header_only_paytable_dir = ReelsAbsent \<and>
   validate_convergence header_only_paytable_dir 96 5000 [''UK''] =
     Inr \<lparr>verdict = ''CONVERGED'', conflicts = [], v_warnings = [],
          checks_passed = [GddExists, PaytableSymbols 0, SimulationSpins (Some 1000000),
                           RtpWithin 96 96 0, MaxWinWithinCap 4000 ''UK'' 10000,
                           BreakdownSums 96 96]\<rparr>"
  by (simp add: no_sim_run header_only_run) (simp add: header_only_paytable_dir_def)

text \<open>
  Claim C4, amended. When \<open>simulation_results.json\<close> is absent the validator returns a
  report with a MISSING_FILE conflict of severity HIGH for it and the verdict
  NOT_CONVERGED, and the checks that read the simulation are skipped: every conflict is a
  MISSING_FILE, no warning comes from the RTP or feature checks, and no RTP, max-win or
  breakdown check is recorded as passed. When \<open>BaseReels.csv\<close> is absent and the paytable
  has at least one symbol, a report has a MISSING_FILE conflict of severity HIGH for the
  reels and the verdict NOT_CONVERGED; with an empty paytable no conflict is recorded
  for the reels.
\<close>

theorem C4_missing_simulation_and_reels:
  "(simulation_results_json d = SimAbsent \<longrightarrow>
      (\<exists>rep. validate_convergence d t mt ms = Inr rep \<and>
         verdict rep = ''NOT_CONVERGED'' \<and>
         missing_simulation \<in> set (conflicts rep) \<and>
         severity missing_simulation = ''HIGH'' \<and>
         (\<forall>c \<in> set (conflicts rep). c_type c = ''MISSING_FILE'') \<and>
         (\<forall>w \<in> set (v_warnings rep). w_type w = ''PARSE_ERROR'' \<or> w_type w = ''LOW_SYMBOL_COUNT'') \<and>
         (\<forall>p \<in> set (checks_passed rep).
             \<not> is_rtp_pass p \<and> \<not> is_cap_pass p \<and> \<not> is_breakdown_pass p))) \<and>
   (BaseReels_csv d = ReelsAbsent \<longrightarrow>
      (\<forall>rep. validate_convergence d t mt ms = Inr rep \<longrightarrow>
         severity missing_reels = ''HIGH'' \<and>
         (paytable_of d \<noteq> [] \<longrightarrow>
            missing_reels \<in> set (conflicts rep) \<and> verdict rep = ''NOT_CONVERGED'') \<and>
         (paytable_of d = [] \<longrightarrow> (\<forall>c \<in> set (conflicts rep). c_detail c \<noteq> ReelsNotFound))))"
proof (intro conjI impI allI)
  assume absent: "simulation_results_json d = SimAbsent"
  note facts = sim_absent_facts[OF absent]
  have "\<exists>rep. validate_convergence d t mt ms = Inr rep"
    by (rule validate_returns) (simp_all add: facts(3,5))
  then obtain rep where rep: "validate_convergence d t mt ms = Inr rep" by blast
  have c: "conflicts rep =
     (if gdd_md d = None then [missing_gdd] else []) @
     (if paytable_csv d = PaytableAbsent then [missing_paytable] else []) @
     [missing_simulation] @
     (if BaseReels_csv d = ReelsAbsent \<and> paytable_of d \<noteq> [] then [missing_reels] else [])"
    using validate_conflicts[OF rep] by (simp add: facts(2-5) absent)
  have p: "checks_passed rep =
     (if gdd_md d = None then [] else [GddExists]) @
     (case paytable_csv d of PaytableRows syms failed \<Rightarrow>
         if failed then [] else [PaytableSymbols (length (remdups syms))]
      | PaytableAbsent \<Rightarrow> []) @
     (case BaseReels_csv d of ReelsText x \<Rightarrow> [ReelPositions (int (length (reel_lines x)) - 1)] | _ \<Rightarrow> [])"
    using validate_passed[OF rep] by (simp add: facts(2-5) absent)
  from validate_warnings[OF rep] obtain fw where
    w: "v_warnings rep =
     (case paytable_csv d of PaytableRows syms failed \<Rightarrow>
         if failed then [\<lparr>w_type = ''PARSE_ERROR'', w_detail = PaytableParseError\<rparr>] else []
      | PaytableAbsent \<Rightarrow> []) @
     fw @
     (if paytable_of d \<noteq> [] \<and> gdd_text_of d \<noteq> [] \<and> length (paytable_of d) < 8
      then [\<lparr>w_type = ''LOW_SYMBOL_COUNT'', w_detail = FewSymbols (length (paytable_of d))\<rparr>] else [])"
    and fw: "\<not> (gdd_text_of d \<noteq> [] \<and> sim_nonempty (sim_of d)) \<longrightarrow> fw = []"
    by (auto simp: facts(2-5) absent)
  from fw facts(5) have fw0: "fw = []" by simp
  have "severity missing_simulation = ''HIGH''" by (simp add: missing_simulation_def)
  moreover have "missing_simulation \<in> set (conflicts rep)" using c by simp
  ultimately have "\<exists>c \<in> set (conflicts rep). severity c = ''BLOCKER'' \<or> severity c = ''HIGH''"
    by blast
  then have v: "verdict rep = ''NOT_CONVERGED''"
    using validate_verdict[OF rep] by simp
  have "missing_simulation \<in> set (conflicts rep)" using c by simp
  moreover have "\<forall>c \<in> set (conflicts rep). c_type c = ''MISSING_FILE''"
    using c by (auto simp: missing_gdd_def missing_paytable_def missing_simulation_def
        missing_reels_def split: if_splits)
  moreover have "\<forall>w \<in> set (v_warnings rep). w_type w = ''PARSE_ERROR'' \<or> w_type w = ''LOW_SYMBOL_COUNT''"
    using w fw0 by (auto split: paytable_file.splits if_splits)
  moreover have "\<forall>p \<in> set (checks_passed rep).
             \<not> is_rtp_pass p \<and> \<not> is_cap_pass p \<and> \<not> is_breakdown_pass p"
    using p by (auto split: paytable_file.splits reels_file.splits if_splits)
  moreover have "severity missing_simulation = ''HIGH''" by (simp add: missing_simulation_def)
  ultimately show "\<exists>rep. validate_convergence d t mt ms = Inr rep \<and>
         verdict rep = ''NOT_CONVERGED'' \<and>
         missing_simulation \<in> set (conflicts rep) \<and>
         severity missing_simulation = ''HIGH'' \<and>
         (\<forall>c \<in> set (conflicts rep). c_type c = ''MISSING_FILE'') \<and>
         (\<forall>w \<in> set (v_warnings rep). w_type w = ''PARSE_ERROR'' \<or> w_type w = ''LOW_SYMBOL_COUNT'') \<and>
         (\<forall>p \<in> set (checks_passed rep).
             \<not> is_rtp_pass p \<and> \<not> is_cap_pass p \<and> \<not> is_breakdown_pass p)"
    using rep v by blast
next
  show "severity missing_reels = ''HIGH''" by (simp add: missing_reels_def)
next
  fix rep
  assume absent: "BaseReels_csv d = ReelsAbsent"
    and rep: "validate_convergence d t mt ms = Inr rep" and pt: "paytable_of d \<noteq> []"
  from validate_conflicts[OF rep] absent pt
  show m: "missing_reels \<in> set (conflicts rep)" by simp
  have "severity missing_reels = ''HIGH''" by (simp add: missing_reels_def)
  with m have "\<exists>c \<in> set (conflicts rep). severity c = ''BLOCKER'' \<or> severity c = ''HIGH''"
    by blast
  then show "verdict rep = ''NOT_CONVERGED''"
    using validate_verdict[OF rep] by simp
next
  fix rep
  assume absent: "BaseReels_csv d = ReelsAbsent"
    and rep: "validate_convergence d t mt ms = Inr rep" and pt: "paytable_of d = []"
  have caps: "\<And>mw c. c \<in> set (List.map_filter (cap_blocker mw) ms) \<Longrightarrow> c_detail c \<noteq> ReelsNotFound"
  proof -
    fix mw c assume "c \<in> set (List.map_filter (cap_blocker mw) ms)"
    then obtain m where "cap_blocker mw m = Some c" by (auto simp: List.map_filter_def)
    then show "c_detail c \<noteq> ReelsNotFound"
      by (auto simp: cap_blocker_def cap_conflict_def split: option.splits if_splits)
  qed
  show "\<forall>c \<in> set (conflicts rep). c_detail c \<noteq> ReelsNotFound"
    unfolding validate_conflicts[OF rep]
    by (auto simp: pt missing_gdd_def missing_paytable_def missing_simulation_def rtp_conflict_def
        target_conflict_def breakdown_conflict_def dest: caps split: option.splits if_splits)
qed

text \<open>Claim C4, amended, in a directory that lacks both files and has a paytable of 8 symbols.\<close>

theorem C4_missing_files_witness:
  "simulation_results_json no_sim_no_reels_dir = SimAbsent \<and>
   BaseReels_csv no_sim_no_reels_dir = ReelsAbsent \<and>
   paytable_of no_sim_no_reels_dir \<noteq> [] \<and>
   (\<exists>rep. validate_convergence no_sim_no_reels_dir 96 5000 [''UK''] = Inr rep \<and>
       verdict rep = ''NOT_CONVERGED'' \<and> missing_simulation \<in> set (conflicts rep) \<and>
       missing_reels \<in> set (conflicts rep))"
proof -
  have a: "simulation_results_json no_sim_no_reels_dir = SimAbsent"
    and b: "BaseReels_csv no_sim_no_reels_dir = ReelsAbsent"
    and c: "paytable_of no_sim_no_reels_dir \<noteq> []"
    by (simp_all add: no_sim_no_reels_dir_def sample_dir_def paytable_of_def)
  from C4_missing_simulation_and_reels[of no_sim_no_reels_dir 96 5000 "[''UK'']"] a b c
  show ?thesis by auto
qed

lemma sim_of_Json: "simulation_results_json d = SimJson s \<Longrightarrow> sim_of d = s"
  by (simp add: sim_of_def)



lemma reconciled_None:
  assumes "get (measured_rtp sim) = None \<or> get (measured_rtp sim) = Some 0"
  shows "reconciled sim = None"
  using assms by (auto simp: reconciled_def split: option.splits)

lemma conflict_types:
  "c_type missing_gdd = ''MISSING_FILE''" "c_type missing_paytable = ''MISSING_FILE''"
  "c_type missing_simulation = ''MISSING_FILE''" "c_type missing_reels = ''MISSING_FILE''"
  "c_type (rtp_conflict m t) = ''RTP_DEVIATION''" "c_type (target_conflict mw mt) = ''MAX_WIN_EXCEEDED''"
  "c_type (cap_conflict mw mk cap) = ''JURISDICTION_MAX_WIN''"
  "c_type (breakdown_conflict tot m) = ''RTP_BREAKDOWN_MISMATCH''"
  by (simp_all add: missing_gdd_def missing_paytable_def missing_simulation_def missing_reels_def
      rtp_conflict_def target_conflict_def cap_conflict_def breakdown_conflict_def)

lemma cap_blocker_Some:
  "cap_blocker mw m = Some c \<Longrightarrow> \<exists>cap. c = cap_conflict mw m cap"
  by (auto simp: cap_blocker_def split: option.splits if_splits)

lemma cap_pass_Some:
  "cap_pass mw m = Some p \<Longrightarrow> \<exists>cap. p = MaxWinWithinCap mw m cap"
  by (auto simp: cap_pass_def split: option.splits if_splits)

lemma cap_blockers_type:
  "c \<in> set (List.map_filter (cap_blocker mw) ms) \<Longrightarrow> c_type c = ''JURISDICTION_MAX_WIN''"
  by (induction ms)
     (auto simp: List.map_filter_simps conflict_types split: option.splits dest: cap_blocker_Some)

lemma cap_passes_kind:
  "p \<in> set (List.map_filter (cap_pass mw) ms) \<Longrightarrow> is_cap_pass p"
  by (induction ms)
     (auto simp: List.map_filter_simps split: option.splits dest: cap_pass_Some)

lemma filter_by_type:
  "filter (\<lambda>c. c_type c = ty) (conflicts rep) = cs \<Longrightarrow>
   c \<in> set (conflicts rep) \<Longrightarrow> c_type c = ty \<Longrightarrow> c \<in> set cs"
  by auto

lemma breakdown_conflicts_of_report:
  assumes "validate_convergence d t mt ms = Inr rep"
  shows "filter (\<lambda>c. c_type c = ''RTP_BREAKDOWN_MISMATCH'') (conflicts rep) =
     (case reconciled (sim_of d) of None \<Rightarrow> []
      | Some (tot, m) \<Rightarrow> if \<bar>tot - m\<bar> > 1 then [breakdown_conflict tot m] else [])"
proof -
  have caps: "\<And>mw. filter (\<lambda>c. c_type c = ''RTP_BREAKDOWN_MISMATCH'') (List.map_filter (cap_blocker mw) ms) = []"
    by (auto simp: filter_empty_conv dest: cap_blockers_type)
  show ?thesis
    unfolding validate_conflicts[OF assms]
    by (simp add: conflict_types caps split: option.splits)
qed

lemma breakdown_passes_of_report:
  assumes "validate_convergence d t mt ms = Inr rep"
  shows "filter is_breakdown_pass (checks_passed rep) =
     (case reconciled (sim_of d) of None \<Rightarrow> []
      | Some (tot, m) \<Rightarrow> if \<bar>tot - m\<bar> > 1 then [] else [BreakdownSums tot m])"
proof -
  have caps: "\<And>mw. filter is_breakdown_pass (List.map_filter (cap_pass mw) ms) = []"
    using cap_passes_kind by (fastforce simp: filter_empty_conv elim: is_cap_pass.elims)
  show ?thesis
    unfolding validate_passed[OF assms]
    by (simp add: caps split: option.splits paytable_file.splits sim_file.splits reels_file.splits)
qed



lemma cap_conflicts_of_report:
  assumes "validate_convergence d t mt ms = Inr rep"
  shows "filter (\<lambda>c. c_type c = ''JURISDICTION_MAX_WIN'') (conflicts rep) =
     (case get (max_win_achieved (sim_of d)) of None \<Rightarrow> []
      | Some mw \<Rightarrow> List.map_filter (cap_blocker mw) ms)"
proof -
  have caps: "\<And>mw. filter (\<lambda>c. c_type c = ''JURISDICTION_MAX_WIN'') (List.map_filter (cap_blocker mw) ms)
      = List.map_filter (cap_blocker mw) ms"
    by (auto simp: filter_id_conv dest: cap_blockers_type)
  show ?thesis
    unfolding validate_conflicts[OF assms]
    by (simp add: conflict_types caps split: option.splits)
qed

lemma cap_passes_of_report:
  assumes "validate_convergence d t mt ms = Inr rep"
  shows "filter is_cap_pass (checks_passed rep) =
     (case get (max_win_achieved (sim_of d)) of None \<Rightarrow> []
      | Some mw \<Rightarrow> List.map_filter (cap_pass mw) ms)"
proof -
  have caps: "\<And>mw. filter is_cap_pass (List.map_filter (cap_pass mw) ms) = List.map_filter (cap_pass mw) ms"
    by (auto simp: filter_id_conv dest: cap_passes_kind)
  show ?thesis
    unfolding validate_passed[OF assms]
    by (simp add: caps split: option.splits paytable_file.splits sim_file.splits reels_file.splits)
qed

text \<open>
  Claim C9: the jurisdiction max-win check reads only the validator's own table
  \<open>MAX_WIN_CAPS\<close>. The JURISDICTION_MAX_WIN conflicts of a report, all of severity
  BLOCKER, are exactly one per target market, in order, whose lower-cased, stripped name
  is a key of that table with a non-null cap below the measured max win; the passed
  max-win checks are one per market with a non-null cap not below it; a market with a
  null cap or an unknown name gives neither, and so does every market when no max win was
  measured. The table caps the UK at 10000, while the profile store's UK profile has no cap.
\<close>

theorem C9_max_win_caps_from_own_table:
  assumes "validate_convergence d t mt ms = Inr rep"
  shows "filter (\<lambda>c. c_type c = ''JURISDICTION_MAX_WIN'') (conflicts rep) =
           (case get (max_win_achieved (sim_of d)) of None \<Rightarrow> []
            | Some mw \<Rightarrow> List.map_filter (cap_blocker mw) ms) \<and>
         filter is_cap_pass (checks_passed rep) =
           (case get (max_win_achieved (sim_of d)) of None \<Rightarrow> []
            | Some mw \<Rightarrow> List.map_filter (cap_pass mw) ms) \<and>
         severity (cap_conflict mw m cap) = ''BLOCKER'' \<and>
         map_of MAX_WIN_CAPS ''uk'' = Some (Some 10000) \<and>
         map_of JURISDICTION_PROFILES ''UK'' = Some UK_profile \<and>
         cap_x UK_profile = None"
  using cap_conflicts_of_report[OF assms] cap_passes_of_report[OF assms]
  by (simp add: cap_conflict_def MAX_WIN_CAPS_def JURISDICTION_PROFILES_def UK_profile_def)

text \<open>
  Claim C9 for a measured max win of 12000 and the markets UK (cap 10000), Curacao (null
  cap), Mars (unknown) and Malta with spaces around it (cap 50000).
\<close>

theorem C9_max_win_caps_witness:
  "\<exists>rep. validate_convergence sample_dir 96 5000 [''UK'', ''Curacao'', ''Mars'', '' Malta ''] = Inr rep \<and>
     filter (\<lambda>c. c_type c = ''JURISDICTION_MAX_WIN'') (conflicts rep) = [cap_conflict 12000 ''UK'' 10000] \<and>
     filter is_cap_pass (checks_passed rep) = [MaxWinWithinCap 12000 '' Malta '' 50000]"
proof -
  have s: "get (max_win_achieved (sim_of sample_dir)) = Some 12000"
    by (simp add: sim_of_def sample_dir_def sample_sim_def)
  have b: "List.map_filter (cap_blocker 12000) [''UK'', ''Curacao'', ''Mars'', '' Malta ''] =
             [cap_conflict 12000 ''UK'' 10000]"
    by (simp add: List.map_filter_simps cap_blocker_def MAX_WIN_CAPS_def lower_def strip_def isspace_def)
  have p: "List.map_filter (cap_pass 12000) [''UK'', ''Curacao'', ''Mars'', '' Malta ''] =
             [MaxWinWithinCap 12000 '' Malta '' 50000]"
    by (simp add: List.map_filter_simps cap_pass_def MAX_WIN_CAPS_def lower_def strip_def isspace_def)
  note th = C9_max_win_caps_from_own_table[OF sample_run, unfolded s option.case b p]
  from th sample_run show ?thesis by blast
qed

lemma rtp_conflicts_of_report:
  assumes "validate_convergence d t mt ms = Inr rep"
  shows "filter (\<lambda>c. c_type c = ''RTP_DEVIATION'') (conflicts rep) =
     (case get (measured_rtp (sim_of d)) of None \<Rightarrow> []
      | Some m \<Rightarrow> if \<bar>m - t\<bar> > 1 then [rtp_conflict m t] else [])"
proof -
  have caps: "\<And>mw. filter (\<lambda>c. c_type c = ''RTP_DEVIATION'') (List.map_filter (cap_blocker mw) ms) = []"
    by (auto simp: filter_empty_conv dest: cap_blockers_type)
  show ?thesis
    unfolding validate_conflicts[OF assms]
    by (simp add: conflict_types caps split: option.splits)
qed

lemma rtp_passes_of_report:
  assumes "validate_convergence d t mt ms = Inr rep"
  shows "filter is_rtp_pass (checks_passed rep) =
     (case get (measured_rtp (sim_of d)) of None \<Rightarrow> []
      | Some m \<Rightarrow> if \<not> \<bar>m - t\<bar> > 1 / 2 then [RtpWithin m t \<bar>m - t\<bar>] else [])"
proof -
  have caps: "\<And>mw. filter is_rtp_pass (List.map_filter (cap_pass mw) ms) = []"
    using cap_passes_kind by (fastforce simp: filter_empty_conv elim: is_cap_pass.elims)
  show ?thesis
    unfolding validate_passed[OF assms]
    by (simp add: caps split: option.splits paytable_file.splits sim_file.splits reels_file.splits)
qed

lemma rtp_warnings_of_report:
  assumes "validate_convergence d t mt ms = Inr rep"
  shows "filter (\<lambda>w. w_type w = ''RTP_DEVIATION'') (v_warnings rep) =
     (case get (measured_rtp (sim_of d)) of None \<Rightarrow> []
      | Some m \<Rightarrow> if \<not> \<bar>m - t\<bar> > 1 \<and> \<bar>m - t\<bar> > 1 / 2 then [rtp_warning m t] else [])"
proof -
  from validate_warnings[OF assms] obtain fw where
    w: "v_warnings rep =
     (case paytable_csv d of PaytableRows syms failed \<Rightarrow>
         if failed then [\<lparr>w_type = ''PARSE_ERROR'', w_detail = PaytableParseError\<rparr>] else []
      | PaytableAbsent \<Rightarrow> []) @
     (case simulation_results_json d of
        SimUnparseable \<Rightarrow> [\<lparr>w_type = ''PARSE_ERROR'', w_detail = SimulationParseError\<rparr>] | _ \<Rightarrow> []) @
     (case get (measured_rtp (sim_of d)) of None \<Rightarrow> []
      | Some m \<Rightarrow> if \<not> \<bar>m - t\<bar> > 1 \<and> \<bar>m - t\<bar> > 1 / 2 then [rtp_warning m t] else []) @
     fw @
     (if paytable_of d \<noteq> [] \<and> gdd_text_of d \<noteq> [] \<and> length (paytable_of d) < 8
      then [\<lparr>w_type = ''LOW_SYMBOL_COUNT'', w_detail = FewSymbols (length (paytable_of d))\<rparr>] else [])"
    and fw: "\<forall>w \<in> set fw. w_type w = ''FEATURE_UNCOSTED''"
    by blast
  have f: "filter (\<lambda>w. w_type w = ''RTP_DEVIATION'') fw = []"
    using fw by (auto simp: filter_empty_conv)
  show ?thesis
    unfolding w
    by (simp add: f rtp_warning_def split: option.splits paytable_file.splits sim_file.splits)
qed

text \<open>
  Claim C10: when the measured RTP is absent or exactly 0, a report has no
  RTP_BREAKDOWN_MISMATCH conflict and no passed breakdown check, whatever the breakdown
  holds. The check against the target RTP still runs for a measured RTP of 0 (exactly one
  of its three outcomes is recorded) and is skipped only for an absent one.
\<close>

theorem C10_breakdown_skipped_without_measured_rtp:
  assumes "validate_convergence d t mt ms = Inr rep"
    and "get (measured_rtp (sim_of d)) = None \<or> get (measured_rtp (sim_of d)) = Some 0"
  shows "filter (\<lambda>c. c_type c = ''RTP_BREAKDOWN_MISMATCH'') (conflicts rep) = [] \<and>
         filter is_breakdown_pass (checks_passed rep) = [] \<and>
         (get (measured_rtp (sim_of d)) = Some 0 \<longrightarrow>
            filter (\<lambda>c. c_type c = ''RTP_DEVIATION'') (conflicts rep) =
              (if \<bar>t\<bar> > 1 then [rtp_conflict 0 t] else []) \<and>
            filter (\<lambda>w. w_type w = ''RTP_DEVIATION'') (v_warnings rep) =
              (if \<not> \<bar>t\<bar> > 1 \<and> \<bar>t\<bar> > 1 / 2 then [rtp_warning 0 t] else []) \<and>
            filter is_rtp_pass (checks_passed rep) =
              (if \<not> \<bar>t\<bar> > 1 / 2 then [RtpWithin 0 t \<bar>t\<bar>] else []) \<and>
            length (filter (\<lambda>c. c_type c = ''RTP_DEVIATION'') (conflicts rep)) +
            length (filter (\<lambda>w. w_type w = ''RTP_DEVIATION'') (v_warnings rep)) +
            length (filter is_rtp_pass (checks_passed rep)) = 1) \<and>
         (get (measured_rtp (sim_of d)) = None \<longrightarrow>
            filter (\<lambda>c. c_type c = ''RTP_DEVIATION'') (conflicts rep) = [] \<and>
            filter (\<lambda>w. w_type w = ''RTP_DEVIATION'') (v_warnings rep) = [] \<and>
            filter is_rtp_pass (checks_passed rep) = [])"
  using breakdown_conflicts_of_report[OF assms(1)] breakdown_passes_of_report[OF assms(1)]
    reconciled_None[OF assms(2)] rtp_conflicts_of_report[OF assms(1)]
    rtp_passes_of_report[OF assms(1)] rtp_warnings_of_report[OF assms(1)]
  by auto

text \<open>Claim C10 for a measured RTP of 0 and the breakdown 60 + 20 + 0.5, against a target of 96.\<close>

theorem C10_breakdown_skipped_witness:
  "get (measured_rtp (sim_of zero_rtp_dir)) = Some 0 \<and>
   (\<exists>rep. validate_convergence zero_rtp_dir 96 20000 [] = Inr rep \<and>
      filter (\<lambda>c. c_type c = ''RTP_BREAKDOWN_MISMATCH'') (conflicts rep) = [] \<and>
      filter is_breakdown_pass (checks_passed rep) = [] \<and>
      filter (\<lambda>c. c_type c = ''RTP_DEVIATION'') (conflicts rep) = [rtp_conflict 0 96])"
proof -
  have z: "get (measured_rtp (sim_of zero_rtp_dir)) = Some 0"
    by (simp add: sim_of_def zero_rtp_dir_def sample_dir_def sample_sim_def)
  then have h: "get (measured_rtp (sim_of zero_rtp_dir)) = None \<or>
                get (measured_rtp (sim_of zero_rtp_dir)) = Some 0" by simp
  from C10_breakdown_skipped_without_measured_rtp[OF zero_rtp_run h] z
  have "filter (\<lambda>c. c_type c = ''RTP_BREAKDOWN_MISMATCH'')
          (conflicts \<lparr>verdict = ''NOT_CONVERGED'',
          conflicts = [\<lparr>c_type = ''RTP_DEVIATION'', severity = ''BLOCKER'',
                        c_detail = RtpDeviates 0 96 96, instruction_to = Some ''mathematician''\<rparr>],
          v_warnings = [],
          checks_passed = [GddExists, PaytableSymbols 8, SimulationSpins (Some 1000000),
                           ReelPositions 2]\<rparr>) = []"
    by blast
  with z zero_rtp_run show ?thesis
    by (simp add: rtp_conflict_def)
qed

section \<open>Properties of the patch applier\<close>








lemma isspace_newline: "isspace newline"
  by (simp add: isspace_def newline_def)

lemma header_end_Some:
  assumes "header_end rest = Some n"
  shows "\<exists>ws post. rest = ws @ [newline] @ post \<and> (\<forall>x \<in> set ws. isspace x) \<and> n = length ws + 1"
proof -
  define W where "W = takeWhile isspace rest"
  define R where "R = dropWhile (\<lambda>c. c \<noteq> newline) (rev W)"
  from assms have n: "n = length R" and ne: "R \<noteq> []"
    by (auto simp: header_end_def Let_def W_def R_def split: if_splits)
  from ne have "hd R = newline"
    unfolding R_def using hd_dropWhile[of "\<lambda>c. c \<noteq> newline" "rev W"] by auto
  with ne obtain R' where R: "R = newline # R'" by (cases R) auto
  have "rev W = takeWhile (\<lambda>c. c \<noteq> newline) (rev W) @ R"
    unfolding R_def by simp
  then have "W = rev R @ rev (takeWhile (\<lambda>c. c \<noteq> newline) (rev W))"
    by (metis rev_append rev_rev_ident)
  then have W: "W = rev R' @ [newline] @ rev (takeWhile (\<lambda>c. c \<noteq> newline) (rev W))"
    using R by simp
  have restW: "rest = W @ dropWhile isspace rest"
    unfolding W_def by simp
  have allW: "\<forall>x \<in> set W. isspace x"
    unfolding W_def by (auto dest: set_takeWhileD)
  have "set (rev R') \<subseteq> set W" using W by (metis set_append sup_ge1)
  with allW have ws: "\<forall>x \<in> set (rev R'). isspace x" by blast
  have "rest = rev R' @ [newline] @ (rev (takeWhile (\<lambda>c. c \<noteq> newline) (rev W)) @ dropWhile isspace rest)"
    using restW W by (metis append.assoc)
  moreover have "n = length (rev R') + 1" using n R by simp
  ultimately show ?thesis using ws by blast
qed


lemma header_end_greedy:
  assumes "header_end rest = Some n"
  shows "\<not> (\<exists>ws. (\<forall>x \<in> set ws. isspace x) \<and> prefix (take n rest @ ws @ [newline]) rest)"
proof
  assume "\<exists>ws. (\<forall>x \<in> set ws. isspace x) \<and> prefix (take n rest @ ws @ [newline]) rest"
  then obtain ws post where ws: "\<forall>x \<in> set ws. isspace x"
    and rest: "rest = take n rest @ ws @ [newline] @ post"
    by (auto simp: prefix_def)
  from header_end_Some[OF assms] obtain ws0 post0 where
    r0: "rest = ws0 @ [newline] @ post0" "\<forall>x \<in> set ws0. isspace x" "n = length ws0 + 1"
    by blast
  then have tk: "take n rest = ws0 @ [newline]" by simp
  define V where "V = ws0 @ [newline] @ ws @ [newline]"
  have Vsp: "\<forall>x \<in> set V. isspace x" using r0(2) ws by (auto simp: V_def isspace_newline)
  have restV: "rest = V @ post" using rest tk by (simp add: V_def)
  then have "takeWhile isspace rest = V @ takeWhile isspace post"
    using Vsp by (simp add: takeWhile_append2)
  then have "rev (takeWhile isspace rest) = rev (takeWhile isspace post) @ newline # rev ws @ newline # rev ws0"
    by (simp add: V_def)
  then obtain A B where rv: "rev (takeWhile isspace rest) = A @ newline # B" "length B \<ge> length ws0 + 1"
    by (metis length_Cons length_append length_rev add.commute le_add2 plus_1_eq_Suc)
  have "length (dropWhile (\<lambda>c. c \<noteq> newline) (A @ newline # B)) \<ge> length (newline # B)"
  proof (induction A)
    case Nil
    then show ?case by simp
  next
    case (Cons a A)
    then show ?case by auto
  qed
  with rv have "length (dropWhile (\<lambda>c. c \<noteq> newline) (rev (takeWhile isspace rest))) \<ge> length ws0 + 2"
    by simp
  with assms r0(3) show False
    by (auto simp: header_end_def Let_def split: if_splits)
qed























section \<open>Properties of the paytable sanity checker\<close>

lemma then_do_Inr: "then_do m f = Inr r \<longleftrightarrow> (\<exists>x. m = Inr x \<and> f x = Inr r)"
  by (cases m) (auto simp: then_do_def)

lemma reels_step_issues:
  "issues (reels_step reels ps a) = issues a @
     (case reels of
        RlAbsent \<Rightarrow> [\<lparr>f_type = ''MISSING_REELS'', f_detail = ReelsNotFoundDetail\<rparr>]
      | RlUnreadable \<Rightarrow> []
      | RlTable reel_header reel_rows \<Rightarrow>
          (if truly_missing (reel_symbols_of reel_rows) ps \<noteq> []
           then [\<lparr>f_type = ''REEL_SYMBOL_MISSING_FROM_PAYTABLE'',
                  f_detail = ReelSymbolsMissing (truly_missing (reel_symbols_of reel_rows) ps)\<rparr>]
           else []) @
          short_reels reel_header reel_rows)"
  by (simp add: reels_step_def Let_def split: reels_input.splits)

lemma short_reels_types: "i \<in> set (short_reels h rows) \<Longrightarrow> f_type i = ''SHORT_REEL''"
  by (auto simp: short_reels_def split: if_splits)

lemma short_reels_iff:
  "\<lparr>f_type = ''SHORT_REEL'', f_detail = ShortReel reel_name n\<rparr> \<in> set (short_reels reel_header reel_rows)
     \<longleftrightarrow> (\<exists>col_idx < length reel_header. reel_header ! col_idx = reel_name \<and>
            n = length (reel_col_values reel_rows col_idx) \<and> n < 10)"
  by (auto simp: short_reels_def in_set_enumerate_eq split: if_splits)

lemma sanity_verdict_blocker:
  "\<exists>i \<in> set iss. f_type i \<in> blocker_types \<Longrightarrow> sanity_verdict iss ws = ''FAIL''"
proof -
  assume "\<exists>i \<in> set iss. f_type i \<in> blocker_types"
  then have "filter (\<lambda>i. f_type i \<in> blocker_types) iss \<noteq> []"
    by (simp add: filter_empty_conv)
  then show ?thesis by (simp add: sanity_verdict_def)
qed

lemma check_verdict:
  assumes "check_paytable_sanity float d = Inr r"
  shows "s_verdict r = ''FAIL'' \<or> s_verdict r = sanity_verdict (s_issues r) (s_warnings r)"
proof (cases "paytable_file d")
  case PtAbsent
  with assms show ?thesis by (auto simp: check_paytable_sanity_def early_fail_def)
next
  case PtUnreadable
  with assms show ?thesis by (auto simp: check_paytable_sanity_def early_fail_def)
next
  case (PtTable fieldnames paytable_data)
  with assms show ?thesis
    by (auto simp: check_paytable_sanity_def Let_def then_do_Inr)
qed

lemma short_reel_forces_fail:
  assumes "check_paytable_sanity float d = Inr r"
    and "\<exists>i \<in> set (s_issues r). f_type i = ''SHORT_REEL''"
  shows "s_verdict r = ''FAIL''"
proof -
  from assms(2) have "\<exists>i \<in> set (s_issues r). f_type i \<in> blocker_types"
    by (auto simp: blocker_types_def)
  from sanity_verdict_blocker[OF this] check_verdict[OF assms(1)] show ?thesis by auto
qed

lemma monotonic_tiers_types:
  "\<forall>i \<in> set (monotonic_tiers s tiers p). f_type i = ''NON_MONOTONIC''"
  by (induction s tiers p rule: monotonic_tiers.induct) auto

lemma monotonic_row_types:
  "monotonic_row float sc pc row = Inr x \<Longrightarrow> \<forall>i \<in> set x. f_type i = ''NON_MONOTONIC''"
  using monotonic_tiers_types
  by (auto simp: monotonic_row_def then_do_Inr split: if_splits)

lemma for_each_Inr:
  "for_each f xs = Inr ys \<Longrightarrow> \<forall>y \<in> set ys. \<exists>x \<in> set xs. f x = Inr y"
  by (induction xs arbitrary: ys) (auto split: sum.splits)

lemma check_issues:
  assumes "check_paytable_sanity float d = Inr r"
    and "paytable_file d = PtTable fieldnames paytable_data"
  shows "\<exists>nm ps.
     for_each (monotonic_row float (sym_col_of fieldnames) (pay_cols_of fieldnames)) paytable_data = Inr nm \<and>
     s_issues r =
       (if paytable_data = [] then [\<lparr>f_type = ''EMPTY_PAYTABLE'', f_detail = EmptyPaytable\<rparr>] else []) @
       concat nm @
       (case reels_file d of
          RlAbsent \<Rightarrow> [\<lparr>f_type = ''MISSING_REELS'', f_detail = ReelsNotFoundDetail\<rparr>]
        | RlUnreadable \<Rightarrow> []
        | RlTable reel_header reel_rows \<Rightarrow>
            (if truly_missing (reel_symbols_of reel_rows) ps \<noteq> []
             then [\<lparr>f_type = ''REEL_SYMBOL_MISSING_FROM_PAYTABLE'',
                    f_detail = ReelSymbolsMissing (truly_missing (reel_symbols_of reel_rows) ps)\<rparr>]
             else []) @
            short_reels reel_header reel_rows)"
  using assms
  by (auto simp: check_paytable_sanity_def Let_def then_do_Inr reels_step_issues)

lemma short_reel_issues_of_report:
  assumes "check_paytable_sanity float d = Inr r"
    and "paytable_file d = PtTable fieldnames paytable_data"
    and "reels_file d = RlTable reel_header reel_rows"
  shows "filter (\<lambda>i. f_type i = ''SHORT_REEL'') (s_issues r) = short_reels reel_header reel_rows"
proof -
  from check_issues[OF assms(1,2)] assms(3) obtain nm ps where
    nm: "for_each (monotonic_row float (sym_col_of fieldnames) (pay_cols_of fieldnames)) paytable_data = Inr nm"
    and iss: "s_issues r =
       (if paytable_data = [] then [\<lparr>f_type = ''EMPTY_PAYTABLE'', f_detail = EmptyPaytable\<rparr>] else []) @
       concat nm @
       (if truly_missing (reel_symbols_of reel_rows) ps \<noteq> []
             then [\<lparr>f_type = ''REEL_SYMBOL_MISSING_FROM_PAYTABLE'',
                    f_detail = ReelSymbolsMissing (truly_missing (reel_symbols_of reel_rows) ps)\<rparr>]
             else []) @
            short_reels reel_header reel_rows"
    by auto
  have "\<forall>i \<in> set (concat nm). f_type i = ''NON_MONOTONIC''"
    using for_each_Inr[OF nm] monotonic_row_types by fastforce
  then have a: "filter (\<lambda>i. f_type i = ''SHORT_REEL'') (concat nm) = []"
    by (auto simp: filter_empty_conv)
  have b: "filter (\<lambda>i. f_type i = ''SHORT_REEL'') (short_reels reel_header reel_rows) =
           short_reels reel_header reel_rows"
    using short_reels_types by (auto simp: filter_id_conv)
  show ?thesis unfolding iss by (simp add: a b)
qed

text \<open>
  A reel strip of one reel with 9 positions is flagged and the verdict is FAIL.
\<close>

lemma nine_positions_fail:
  "check_paytable_sanity decimal_float (math_dir_with_reel 9) =
     Inr \<lparr>s_verdict = ''FAIL'',
          s_issues = [\<lparr>f_type = ''SHORT_REEL'', f_detail = ShortReel ''Reel 1'' 9\<rparr>],
          s_warnings = [],
          s_checks_passed =
            [PaytableLoaded 4, PaysMonotonic, WildPresent, ScatterPresent,
             ReelsLoaded 9 1, ReelSymbolsInPaytable, HighestPay 12],
          symbol_count = Some 4, reel_symbol_count = Some 4\<rparr>"
  by code_simp

text \<open>
  Claim C8 says every reel strip with fewer than 20 positions is flagged as a short reel,
  which forces the verdict FAIL. The checker flags a reel when it has fewer than 10
  non-blank positions (\<open>short_reel_issues_of_report\<close>, \<open>short_reels_iff\<close>), and a flagged
  reel does force FAIL (\<open>short_reel_forces_fail\<close>); but for a sound paytable and one reel
  of 19 positions the report has no issue at all and the verdict is PASS, while the
  checker's own message gives the minimum as 20 to 30 positions.
\<close>

theorem C8_nineteen_positions_pass:
  "check_paytable_sanity decimal_float (math_dir_with_reel 19) =
     Inr \<lparr>s_verdict = ''PASS'', s_issues = [], s_warnings = [],
          s_checks_passed =
            [PaytableLoaded 4, PaysMonotonic, WildPresent, ScatterPresent,
             ReelsLoaded 19 1, ReelSymbolsInPaytable, HighestPay 12],
          symbol_count = Some 4, reel_symbol_count = Some 4\<rparr>"
  by code_simp

end
